theory Spec2Isabelle
  imports Main "HOL-Library.Sublist" "HOL-Library.Char_ord" "HOL-Library.List_Lexorder"
begin

section \<open>Python strings\<close>

text \<open>
  A Python \<^verbatim>\<open>str\<close> is modelled as a \<^typ>\<open>string\<close>: a list of characters with the code
  points 0 to 255. On these, \<^verbatim>\<open>lower()\<close> maps \<^verbatim>\<open>A-Z\<close> and the capital letters 0xC0-0xDE
  (without the multiplication sign 0xD7) to the letters 32 code points above them and leaves
  every other character alone.
\<close>

definition ascii_uppercase :: string where
  "ascii_uppercase = ''ABCDEFGHIJKLMNOPQRSTUVWXYZ''"

definition ascii_lowercase :: string where
  "ascii_lowercase = ''abcdefghijklmnopqrstuvwxyz''"

definition latin1_uppercase :: string where
  "latin1_uppercase =
     [CHR 0xC0, CHR 0xC1, CHR 0xC2, CHR 0xC3, CHR 0xC4, CHR 0xC5, CHR 0xC6, CHR 0xC7,
      CHR 0xC8, CHR 0xC9, CHR 0xCA, CHR 0xCB, CHR 0xCC, CHR 0xCD, CHR 0xCE, CHR 0xCF,
      CHR 0xD0, CHR 0xD1, CHR 0xD2, CHR 0xD3, CHR 0xD4, CHR 0xD5, CHR 0xD6,
      CHR 0xD8, CHR 0xD9, CHR 0xDA, CHR 0xDB, CHR 0xDC, CHR 0xDD, CHR 0xDE]"

definition latin1_lowercase :: string where
  "latin1_lowercase =
     [CHR 0xE0, CHR 0xE1, CHR 0xE2, CHR 0xE3, CHR 0xE4, CHR 0xE5, CHR 0xE6, CHR 0xE7,
      CHR 0xE8, CHR 0xE9, CHR 0xEA, CHR 0xEB, CHR 0xEC, CHR 0xED, CHR 0xEE, CHR 0xEF,
      CHR 0xF0, CHR 0xF1, CHR 0xF2, CHR 0xF3, CHR 0xF4, CHR 0xF5, CHR 0xF6,
      CHR 0xF8, CHR 0xF9, CHR 0xFA, CHR 0xFB, CHR 0xFC, CHR 0xFD, CHR 0xFE]"

definition lower_char :: "char \<Rightarrow> char" where
  "lower_char c =
     (case map_of (zip (ascii_uppercase @ latin1_uppercase) (ascii_lowercase @ latin1_lowercase)) c of
        Some l \<Rightarrow> l
      | None \<Rightarrow> c)"

text \<open>
  The upper case of a small letter, where it is a single character below 256: the small
  letters 0xB5, 0xDF and 0xFF have none and are kept. The source upper-cases only the first
  character of a language name.
\<close>

definition upper_char :: "char \<Rightarrow> char" where
  "upper_char c =
     (case map_of (zip (ascii_lowercase @ latin1_lowercase) (ascii_uppercase @ latin1_uppercase)) c of
        Some u \<Rightarrow> u
      | None \<Rightarrow> c)"

definition lower :: "string \<Rightarrow> string" where
  "lower s = map lower_char s"

text \<open>\<^verbatim>\<open>s.capitalize()\<close>: the first character upper-cased, the rest lower-cased.\<close>

definition capitalize :: "string \<Rightarrow> string" where
  "capitalize s = (case s of [] \<Rightarrow> [] | c # cs \<Rightarrow> upper_char c # lower cs)"

text \<open>
  \<^verbatim>\<open>str.isspace\<close> on one character: tab, line feed, vertical tab, form feed, carriage
  return, the four separators 0x1C-0x1F, the space, the next-line control 0x85 and the
  no-break space 0xA0. \<^verbatim>\<open>strip()\<close> removes these characters from both ends.
\<close>

definition isspace :: "char \<Rightarrow> bool" where
  "isspace c = (c \<in> set [CHR 0x09, CHR 0x0A, CHR 0x0B, CHR 0x0C, CHR 0x0D,
                          CHR 0x1C, CHR 0x1D, CHR 0x1E, CHR 0x1F, CHR 0x20,
                          CHR 0x85, CHR 0xA0])"

definition lstrip :: "string \<Rightarrow> string" where
  "lstrip s = dropWhile isspace s"

definition rstrip :: "string \<Rightarrow> string" where
  "rstrip s = rev (dropWhile isspace (rev s))"

definition strip :: "string \<Rightarrow> string" where
  "strip s = rstrip (lstrip s)"

text \<open>\<^verbatim>\<open>s.startswith(p)\<close> and \<^verbatim>\<open>s.endswith(p)\<close>.\<close>

fun startswith :: "string \<Rightarrow> string \<Rightarrow> bool" where
  "startswith s [] = True"
| "startswith [] (p # ps) = False"
| "startswith (c # cs) (p # ps) = (c = p \<and> startswith cs ps)"

definition endswith :: "string \<Rightarrow> string \<Rightarrow> bool" where
  "endswith s p = startswith (rev s) (rev p)"

text \<open>\<^verbatim>\<open>sub in s\<close>, the substring test.\<close>

fun contains :: "string \<Rightarrow> string \<Rightarrow> bool" where
  "contains [] sub = (sub = [])"
| "contains (c # cs) sub = (startswith (c # cs) sub \<or> contains cs sub)"

text \<open>\<^verbatim>\<open>s.split(sep)\<close> for a separator of one character: never the empty list.\<close>

fun split_on :: "char \<Rightarrow> string \<Rightarrow> string list" where
  "split_on sep [] = [[]]"
| "split_on sep (c # cs) =
     (if c = sep then [] # split_on sep cs
      else (case split_on sep cs of [] \<Rightarrow> [[c]] | w # ws \<Rightarrow> (c # w) # ws))"

text \<open>\<^verbatim>\<open>sep.join(xs)\<close>.\<close>

fun join :: "string \<Rightarrow> string list \<Rightarrow> string" where
  "join sep [] = []"
| "join sep [x] = x"
| "join sep (x # y # ys) = x @ sep @ join sep (y # ys)"

text \<open>
  \<^verbatim>\<open>s.replace(old, new)\<close> for a non-empty \<^verbatim>\<open>old\<close> (the source only replaces
  \<^verbatim>\<open>'FILE:'\<close>): occurrences are replaced from the left, without overlap.
\<close>

function replace :: "string \<Rightarrow> string \<Rightarrow> string \<Rightarrow> string" where
  "replace s old new =
     (if old = [] \<or> s = [] then s
      else if startswith s old then new @ replace (drop (length old) s) old new
      else hd s # replace (tl s) old new)"
  by pat_completeness auto
termination
  by (relation "measure (\<lambda>(s, old, new). length s)") (auto simp: neq_Nil_conv)

declare replace.simps [simp del]

definition newline :: string where
  "newline = [CHR 0x0A]"

text \<open>Truthiness of an \<^verbatim>\<open>Optional[str]\<close>: \<^verbatim>\<open>None\<close> and the empty string are false.\<close>

fun truthy :: "string option \<Rightarrow> bool" where
  "truthy None = False"
| "truthy (Some s) = (s \<noteq> [])"

section \<open>The classifier\<close>

text \<open>The dictionary \<^verbatim>\<open>_analyze_query\<close> returns.\<close>

record analysis =
  should_generate_code :: bool
  code_score :: int
  text_score :: int
  language :: string
  framework :: "string option"
  reason :: string

definition code_keywords :: "string list" where
  "code_keywords =
     [''create'', ''build'', ''develop'', ''implement'', ''write code'',
      ''application'', ''app'', ''program'', ''script'', ''function'',
      ''api'', ''service'', ''website'', ''web app'', ''database'',
      ''class'', ''module'', ''package'', ''framework'']"

definition text_keywords :: "string list" where
  "text_keywords =
     [''explain'', ''what is'', ''how does'', ''describe'', ''tell me about'',
      ''information'', ''definition'', ''concept'', ''theory'']"

text \<open>\<^verbatim>\<open>sum(1 for keyword in keywords if keyword in query_lower)\<close>.\<close>

definition keyword_score :: "string list \<Rightarrow> string \<Rightarrow> int" where
  "keyword_score keywords query_lower =
     sum_list (map (\<lambda>keyword. 1) (filter (\<lambda>keyword. contains query_lower keyword) keywords))"

definition language_keywords :: "(string \<times> string list) list" where
  "language_keywords =
     [(''python'', [''python'', ''py'', ''django'', ''flask'', ''fastapi'']),
      (''javascript'', [''javascript'', ''js'', ''node'', ''react'', ''vue'', ''angular'']),
      (''typescript'', [''typescript'', ''ts'']),
      (''java'', [''java'', ''spring'', ''maven'']),
      (''go'', [''go'', ''golang'']),
      (''rust'', [''rust'']),
      (''cpp'', [''c++'', ''cpp'']),
      (''c'', [''c programming'', ''c language''])]"

definition detect_language :: "string \<Rightarrow> string" where
  "detect_language query =
     (case find (\<lambda>(lang, keywords). list_ex (\<lambda>keyword. contains (lower query) keyword) keywords)
             language_keywords of
        Some (lang, keywords) \<Rightarrow> lang
      | None \<Rightarrow> ''python'')"

definition frameworks :: "(string \<times> string) list" where
  "frameworks =
     [(''django'', ''django''), (''flask'', ''flask''), (''fastapi'', ''fastapi''),
      (''react'', ''react''), (''vue'', ''vue''), (''angular'', ''angular''),
      (''express'', ''express''), (''spring'', ''spring'')]"

definition detect_framework :: "string \<Rightarrow> string option" where
  "detect_framework query =
     (case find (\<lambda>(keyword, fw). contains (lower query) keyword) frameworks of
        Some (keyword, fw) \<Rightarrow> Some fw
      | None \<Rightarrow> None)"

definition analyze_query :: "string \<Rightarrow> analysis" where
  "analyze_query query =
     (let query_lower = lower query;
          cs = keyword_score code_keywords query_lower;
          ts = keyword_score text_keywords query_lower;
          sgc = (cs > ts \<and> cs > 0)
      in \<lparr>should_generate_code = sgc,
          code_score = cs,
          text_score = ts,
          language = detect_language query,
          framework = detect_framework query,
          reason = (if sgc then ''Code generation suitable''
                    else ''Query better suited for text response'')\<rparr>)"

section \<open>Dictionaries and the structure tree\<close>

text \<open>
  A Python \<^verbatim>\<open>dict\<close> keeps its keys in insertion order, and the source iterates over
  them, so a dictionary is an association list with distinct keys. \<^verbatim>\<open>d[k] = v\<close> replaces
  the value of a key in place and appends a new key at the end.
\<close>

fun dict_set :: "'k \<Rightarrow> 'v \<Rightarrow> ('k \<times> 'v) list \<Rightarrow> ('k \<times> 'v) list" where
  "dict_set k v [] = [(k, v)]"
| "dict_set k v ((k', v') # d) = (if k' = k then (k, v) # d else (k', v') # dict_set k v d)"

definition keys :: "('k \<times> 'v) list \<Rightarrow> 'k list" where
  "keys d = map fst d"

text \<open>\<^verbatim>\<open>d.get(k, default)\<close>.\<close>

definition dict_get :: "('k \<times> 'v) list \<Rightarrow> 'k \<Rightarrow> 'v \<Rightarrow> 'v" where
  "dict_get d k dflt = (case map_of d k of Some v \<Rightarrow> v | None \<Rightarrow> dflt)"

text \<open>
  The value of \<^verbatim>\<open>structure\<close>: the string \<^verbatim>\<open>"file"\<close> or a nested dictionary.
\<close>

datatype tree = File | Dir "(string \<times> tree) list"

datatype error = TypeError | IndexError

text \<open>
  One pass of the outer loop of \<^verbatim>\<open>_build_structure_tree\<close>, for the segments \<^verbatim>\<open>parts\<close> of
  one path, from the node \<^verbatim>\<open>current\<close>. The inner loop creates a missing directory and
  steps into \<^verbatim>\<open>current[part]\<close>; the last segment is assigned \<^verbatim>\<open>"file"\<close>. When
  \<^verbatim>\<open>current\<close> has become the string \<^verbatim>\<open>"file"\<close>, the next subscript or item assignment on
  it raises \<^verbatim>\<open>TypeError\<close>. \<^verbatim>\<open>parts[-1]\<close> of an empty list would raise \<^verbatim>\<open>IndexError\<close>
  (\<^verbatim>\<open>split\<close> never returns one).
\<close>

fun place :: "string list \<Rightarrow> tree \<Rightarrow> error + tree" where
  "place [] current = Inl IndexError"
| "place (part # parts) File = Inl TypeError"
| "place [part] (Dir d) = Inr (Dir (dict_set part File d))"
| "place (part # next_part # parts) (Dir d) =
     (case place (next_part # parts) (case map_of d part of None \<Rightarrow> Dir [] | Some sub \<Rightarrow> sub) of
        Inl e \<Rightarrow> Inl e
      | Inr sub' \<Rightarrow> Inr (Dir (dict_set part sub' d)))"

fun build_from :: "tree \<Rightarrow> string list \<Rightarrow> error + tree" where
  "build_from structure [] = Inr structure"
| "build_from structure (file_path # file_paths) =
     (case place (split_on CHR ''/'' file_path) structure of
        Inl e \<Rightarrow> Inl e
      | Inr structure' \<Rightarrow> build_from structure' file_paths)"

definition build_structure_tree :: "(string \<times> string) list \<Rightarrow> error + tree" where
  "build_structure_tree files = build_from (Dir []) (keys files)"

text \<open>Following a list of segments down a tree.\<close>

fun lookup :: "tree \<Rightarrow> string list \<Rightarrow> tree option" where
  "lookup t [] = Some t"
| "lookup File (part # parts) = None"
| "lookup (Dir d) (part # parts) =
     (case map_of d part of None \<Rightarrow> None | Some sub \<Rightarrow> lookup sub parts)"

section \<open>The response parser\<close>

text \<open>The local variables of the scanning loop of \<^verbatim>\<open>_parse_codebase_response\<close>.\<close>

record parse_state =
  parsed_files :: "(string \<times> string) list"
  current_file :: "string option"
  current_content :: "string list"
  in_code_block :: bool
  code_block_lang :: "string option"

definition initial_state :: parse_state where
  "initial_state =
     \<lparr>parsed_files = [], current_file = None, current_content = [],
      in_code_block = False, code_block_lang = None\<rparr>"

definition ext_map :: "(string \<times> string) list" where
  "ext_map =
     [(''python'', ''py''), (''py'', ''py''),
      (''javascript'', ''js''), (''js'', ''js''),
      (''typescript'', ''ts''), (''ts'', ''ts''),
      (''html'', ''html''), (''css'', ''css''),
      (''json'', ''json''), (''yaml'', ''yml''), (''yml'', ''yml''),
      (''markdown'', ''md''), (''md'', ''md'')]"

text \<open>The commit: \<^verbatim>\<open>files[current_file] = '\n'.join(current_content).strip()\<close>.\<close>

definition commit :: "string \<Rightarrow> string list \<Rightarrow> (string \<times> string) list \<Rightarrow> (string \<times> string) list" where
  "commit file content files = dict_set file (strip (join newline content)) files"

text \<open>The body of the loop, for one line.\<close>

definition scan_line :: "string \<Rightarrow> parse_state \<Rightarrow> parse_state" where
  "scan_line line st =
     (if startswith (strip line) ''FILE:'' then
        st\<lparr>parsed_files :=
             (case current_file st of
                Some file \<Rightarrow>
                  if file \<noteq> [] then commit file (current_content st) (parsed_files st)
                  else parsed_files st
              | None \<Rightarrow> parsed_files st),
           current_file := Some (strip (replace line ''FILE:'' [])),
           current_content := [],
           in_code_block := False\<rparr>
      else if startswith (strip line) ''```'' then
        (if \<not> in_code_block st then
           (let lang = strip (drop 3 (strip line));
                st1 = st\<lparr>in_code_block := True, code_block_lang := Some lang\<rparr>
            in if truthy (current_file st) \<and> current_content st = [] then st1
               else if \<not> truthy (current_file st) then
                 (if lang \<noteq> [] then
                    (let ext = dict_get ext_map (lower lang) ''txt''
                     in if contains (lower lang) ''main'' \<or> \<not> truthy (current_file st)
                        then st1\<lparr>current_file := Some (''main.'' @ ext)\<rparr>
                        else st1\<lparr>current_file := Some (''file.'' @ ext)\<rparr>)
                  else st1)
               else st1)
         else
           (case current_file st of
              Some file \<Rightarrow>
                if file \<noteq> [] then
                  st\<lparr>in_code_block := False,
                     parsed_files :=
                       (if current_content st \<noteq> []
                        then commit file (current_content st) (parsed_files st)
                        else parsed_files st),
                     current_file := None,
                     current_content := []\<rparr>
                else st\<lparr>in_code_block := False\<rparr>
            | None \<Rightarrow> st\<lparr>in_code_block := False\<rparr>))
      else if truthy (current_file st) then
        st\<lparr>current_content := current_content st @ [line]\<rparr>
      else if strip line \<noteq> [] \<and> \<not> startswith line ''```'' \<and> \<not> in_code_block st then
        (if \<not> list_ex (\<lambda>f. startswith f ''README'' \<or> endswith f ''.md'') (keys (parsed_files st))
         then
           (case map_of (parsed_files st) ''README.md'' of
              None \<Rightarrow> st\<lparr>parsed_files := dict_set ''README.md'' line (parsed_files st)\<rparr>
            | Some readme \<Rightarrow>
                st\<lparr>parsed_files := dict_set ''README.md'' (readme @ newline @ line) (parsed_files st)\<rparr>)
         else st)
      else st)"

text \<open>The whole loop over \<^verbatim>\<open>content.split('\n')\<close>, and the commit of the last file after it.\<close>

definition scan_lines :: "string list \<Rightarrow> parse_state \<Rightarrow> parse_state" where
  "scan_lines lines st = fold scan_line lines st"

definition save_last_file :: "parse_state \<Rightarrow> (string \<times> string) list" where
  "save_last_file st =
     (case current_file st of
        Some file \<Rightarrow>
          if file \<noteq> [] \<and> current_content st \<noteq> []
          then commit file (current_content st) (parsed_files st)
          else parsed_files st
      | None \<Rightarrow> parsed_files st)"

definition scan_response :: "string \<Rightarrow> (string \<times> string) list" where
  "scan_response content = save_last_file (scan_lines (split_on CHR 0x0A content) initial_state)"

section \<open>Requirement extraction\<close>

definition extract_requirements :: "string \<Rightarrow> string" where
  "extract_requirements query =
     (let query_lower = lower query;
          has = contains query_lower;
          requirements =
            (if has ''authentication'' \<or> has ''login'' \<or> has ''auth''
             then [''- User authentication/login functionality''] else []) @
            (if has ''database'' \<or> has ''db'' \<or> has ''sql''
             then [''- Database integration''] else []) @
            (if has ''api'' \<or> has ''rest'' \<or> has ''endpoint''
             then [''- API endpoints/REST API''] else []) @
            (if has ''crud'' \<or> has ''create'' \<or> has ''read'' \<or> has ''update'' \<or> has ''delete''
             then [''- CRUD operations''] else []) @
            (if has ''todo'' \<or> has ''task''
             then [''- Todo/task management features''] else []) @
            (if has ''web'' \<or> has ''website'' \<or> has ''html''
             then [''- Web interface/HTML pages''] else []) @
            (if has ''visualization'' \<or> has ''chart'' \<or> has ''graph'' \<or> has ''plot''
             then [''- Data visualization/charts''] else []) @
            (if has ''csv'' \<or> has ''excel'' \<or> has ''data''
             then [''- Data file processing''] else []) @
            (if has ''cli'' \<or> has ''command'' \<or> has ''terminal''
             then [''- Command-line interface''] else [])
      in join newline
           (if requirements = []
            then [''- Implement the functionality described in the user's request'']
            else requirements))"

section \<open>The alternative parser\<close>

text \<open>
  The two regular expressions of \<^verbatim>\<open>_parse_alternative_format\<close>, written out as the
  scans they perform. \<^verbatim>\<open>find_sub s sub\<close> cuts \<^verbatim>\<open>s\<close> at the first occurrence of
  \<^verbatim>\<open>sub\<close>, into the text before it and the text after it.
\<close>

definition fence :: string where
  "fence = ''```''"

fun find_sub :: "string \<Rightarrow> string \<Rightarrow> (string \<times> string) option" where
  "find_sub [] sub = (if sub = [] then Some ([], []) else None)"
| "find_sub (c # cs) sub =
     (if startswith (c # cs) sub then Some ([], drop (length sub) (c # cs))
      else (case find_sub cs sub of
              None \<Rightarrow> None
            | Some (before, after) \<Rightarrow> Some (c # before, after)))"

text \<open>
  \<^verbatim>\<open>re.split(r'```.*?```', content, flags=re.DOTALL)\<close>: a match runs from a fence to
  the next fence after it, and the text between the matches is returned.
\<close>

function re_split_fences :: "string \<Rightarrow> string list" where
  "re_split_fences s =
     (case find_sub s fence of
        None \<Rightarrow> [s]
      | Some (before, opened) \<Rightarrow>
          (case find_sub opened fence of
             None \<Rightarrow> [s]
           | Some (body, after) \<Rightarrow> before # re_split_fences after))"
  by pat_completeness auto
termination
proof (relation "measure length")
  show "wf (measure (length :: string \<Rightarrow> nat))" by simp
next
  fix s :: string and x2 before opened x2a body after
  assume a: "find_sub s fence = Some x2" "(before, opened) = x2"
    "find_sub opened fence = Some x2a" "(body, after) = x2a"
  have len: "length r < length t" if "find_sub t fence = Some (p, r)" for t p r
    using that
    by (induction t arbitrary: p) (auto simp: fence_def split: if_splits option.splits)
  from a have "length opened < length s" "length after < length opened"
    using len by metis+
  then show "(after, s) \<in> measure length" by simp
qed

declare re_split_fences.simps [simp del]

text \<open>
  The character class \<^verbatim>\<open>\w\<close> of a \<^verbatim>\<open>str\<close> pattern: the underscore and the characters for
  which \<^verbatim>\<open>str.isalnum\<close> holds. Below 256 these are the ASCII letters and digits, the
  letters 0xAA, 0xB5 and 0xBA, the digits 0xB2, 0xB3 and 0xB9, the fractions 0xBC-0xBE, and
  the letters 0xC0-0xFF (without the signs 0xD7 and 0xF7).
\<close>

definition word_char :: "char \<Rightarrow> bool" where
  "word_char c =
     (c \<in> set (ascii_lowercase @ ascii_uppercase @ ''0123456789_'')
      \<or> c \<in> set [CHR 0xAA, CHR 0xB5, CHR 0xBA, CHR 0xB2, CHR 0xB3, CHR 0xB9,
                  CHR 0xBC, CHR 0xBD, CHR 0xBE, CHR 0xDF, CHR 0xFF]
      \<or> c \<in> set (latin1_lowercase @ latin1_uppercase))"

text \<open>
  A match of \<^verbatim>\<open>```(\w+)?\n(.*?)```\<close> at the start of \<^verbatim>\<open>s\<close>: the fence, the longest run
  of word characters, a line feed, and the text up to the next fence. The result is the two
  groups and the text after the match.
\<close>

definition match_block :: "string \<Rightarrow> (string \<times> string \<times> string) option" where
  "match_block s =
     (if startswith s fence then
        (case dropWhile word_char (drop 3 s) of
           [] \<Rightarrow> None
         | c # rest \<Rightarrow>
             if c = CHR 0x0A then
               (case find_sub rest fence of
                  None \<Rightarrow> None
                | Some (code, after) \<Rightarrow> Some (takeWhile word_char (drop 3 s), code, after))
             else None)
      else None)"

text \<open>
  \<^verbatim>\<open>re.findall(r'```(\w+)?\n(.*?)```', content, re.DOTALL)\<close>: the matches from left to
  right, without overlap; a group that took no part in the match is the empty string.
\<close>

function re_findall_blocks :: "string \<Rightarrow> (string \<times> string) list" where
  "re_findall_blocks [] = []"
| "re_findall_blocks (c # cs) =
     (case match_block (c # cs) of
        None \<Rightarrow> re_findall_blocks cs
      | Some (lang, code, after) \<Rightarrow> (lang, code) # re_findall_blocks after)"
  by pat_completeness auto
termination
proof (relation "measure length")
  show "wf (measure (length :: string \<Rightarrow> nat))" by simp
next
  fix c :: char and cs :: string
  show "(cs, c # cs) \<in> measure length" by simp
next
  fix c :: char and cs :: string and x2 lang y code after
  assume a: "match_block (c # cs) = Some x2" "(lang, y) = x2" "(code, after) = y"
  have len: "length r \<le> length t" if "find_sub t fence = Some (p, r)" for t p r
    using that
    by (induction t arbitrary: p) (auto simp: fence_def split: if_splits option.splits)
  from a obtain rest where r: "dropWhile word_char (drop 3 (c # cs)) = CHR 0x0A # rest"
    and f: "find_sub rest fence = Some (code, after)"
    by (auto simp: match_block_def split: if_splits list.splits option.splits)
  have "length (dropWhile word_char (drop 3 (c # cs))) \<le> length (c # cs)"
    by (metis length_dropWhile_le length_drop diff_le_self le_trans)
  with r have "length rest < length (c # cs)" by simp
  with len [OF f] show "(after, c # cs) \<in> measure length" by simp
qed

text \<open>\<^verbatim>\<open>str(i)\<close> for a natural number.\<close>

fun str_of_nat :: "nat \<Rightarrow> string" where
  "str_of_nat n =
     (if n < 10 then [''0123456789'' ! n]
      else str_of_nat (n div 10) @ [''0123456789'' ! (n mod 10)])"

declare str_of_nat.simps [simp del]

definition ext_map_alternative :: "(string \<times> string) list" where
  "ext_map_alternative =
     [(''python'', ''py''), (''py'', ''py''),
      (''javascript'', ''js''), (''js'', ''js''),
      (''typescript'', ''ts''), (''ts'', ''ts''),
      (''html'', ''html''), (''css'', ''css''),
      (''json'', ''json'')]"

text \<open>The body of the loop over \<^verbatim>\<open>enumerate(code_blocks)\<close>.\<close>

definition add_code_block ::
  "string \<Rightarrow> nat \<times> string \<times> string \<Rightarrow> (string \<times> string) list \<Rightarrow> (string \<times> string) list"
where
  "add_code_block default_language block files =
     (case block of (i, lang, code) \<Rightarrow>
        (let lang' = (if lang \<noteq> [] then lang else default_language);
             ext = dict_get ext_map_alternative (lower lang') ''txt'';
             filename = (if i = 0 then ''main.'' @ ext
                         else ''file_'' @ str_of_nat i @ ''.'' @ ext)
         in dict_set filename (strip code) files))"

definition parse_alternative_format :: "string \<Rightarrow> analysis \<Rightarrow> (string \<times> string) list" where
  "parse_alternative_format content analysis =
     (let code_blocks = re_findall_blocks content;
          files = fold (add_code_block (language analysis)) (enumerate 0 code_blocks) [];
          text_parts = re_split_fences content;
          readme_text =
            join (newline @ newline)
              (map strip
                 (filter (\<lambda>p. strip p \<noteq> [] \<and> \<not> startswith (strip p) ''FILE:'') text_parts))
      in if readme_text \<noteq> [] \<and> length readme_text > 50
         then dict_set ''README.md'' readme_text files
         else files)"

section \<open>The README of a parsed result\<close>

text \<open>
  \<^verbatim>\<open>_generate_comprehensive_readme\<close>. Its parameter \<^verbatim>\<open>analysis\<close> is never read.
  \<^verbatim>\<open>sorted\<close> orders strings by their characters' code points.
\<close>

definition find_main_file :: "(string \<times> string) list \<Rightarrow> string option" where
  "find_main_file files =
     (let main_file =
            find (\<lambda>filename. endswith filename ''main.py'' \<or> endswith filename ''main.js''
                    \<or> endswith filename ''main.ts'' \<or> filename = ''app.py''
                    \<or> filename = ''index.js'') (keys files)
      in if \<not> truthy main_file
         then find (\<lambda>filename. endswith filename ''.py'' \<or> endswith filename ''.js''
                      \<or> endswith filename ''.ts'') (keys files)
         else main_file)"

definition readme_how_to_run ::
  "bool \<Rightarrow> string option \<Rightarrow> string \<Rightarrow> string option \<Rightarrow> string" where
  "readme_how_to_run is_web_app main_file lang fw =
     (if is_web_app then
        (if fw = Some ''fastapi'' then
           ''Run the FastAPI application:\<newline>'' @
           ''   ```bash\<newline>'' @
           ''   uvicorn main:app --reload\<newline>'' @
           ''   ```\<newline>'' @
           ''   \<newline>'' @
           ''   Or if using app.py:\<newline>'' @
           ''   ```bash\<newline>'' @
           ''   uvicorn app:app --reload\<newline>'' @
           ''   ```\<newline>'' @
           ''   \<newline>'' @
           ''   The application will be available at: http://localhost:8000\<newline>''
         else if fw = Some ''flask'' then
           ''Run the Flask application:\<newline>'' @
           ''   ```bash\<newline>'' @
           ''   python '' @ (if truthy main_file then the main_file else ''app.py'') @ ''\<newline>'' @
           ''   ```\<newline>'' @
           ''   \<newline>'' @
           ''   The application will be available at: http://localhost:5000\<newline>''
         else if fw = Some ''express'' then
           ''Run the Express server:\<newline>'' @
           ''   ```bash\<newline>'' @
           ''   npm start\<newline>'' @
           ''   ```\<newline>'' @
           ''   \<newline>'' @
           ''   Or:\<newline>'' @
           ''   ```bash\<newline>'' @
           ''   node main.js\<newline>'' @
           ''   ```\<newline>'' @
           ''   \<newline>'' @
           ''   The server will be available at: http://localhost:3000\<newline>''
         else
           (case main_file of
              None \<Rightarrow> []
            | Some file \<Rightarrow>
                if file = [] then []
                else if lang = ''python'' then
                  ''Run the application:\<newline>'' @
                  ''   ```bash\<newline>'' @
                  ''   python '' @ file @ ''\<newline>'' @
                  ''   ```\<newline>''
                else
                  ''Run the application:\<newline>'' @
                  ''   ```bash\<newline>'' @
                  ''   node '' @ file @ ''\<newline>'' @
                  ''   ```\<newline>''))
      else
        (if truthy main_file then
           (if lang = ''python'' then
              ''Run the script:\<newline>'' @
              ''   ```bash\<newline>'' @
              ''   python '' @ the main_file @ ''\<newline>'' @
              ''   ```\<newline>''
            else
              ''Run the script:\<newline>'' @
              ''   ```bash\<newline>'' @
              ''   node '' @ the main_file @ ''\<newline>'' @
              ''   ```\<newline>'')
         else
           ''Run the main file:\<newline>'' @
           ''   ```bash\<newline>'' @
           ''   python main.py\<newline>'' @
           ''   ```\<newline>'' @
           ''   (Adjust the command based on your main entry point)\<newline>''))"

definition generate_comprehensive_readme ::
  "(string \<times> string) list \<Rightarrow> string \<Rightarrow> string option \<Rightarrow> analysis \<Rightarrow> string" where
  "generate_comprehensive_readme files lang fw analysis =
     (let main_file = find_main_file files;
          is_web_app =
            (list_ex (\<lambda>f. contains (lower f) ''app'' \<or> contains (lower f) ''server''
                        \<or> contains (lower f) ''api'') (keys files)
             \<or> fw \<in> set [Some ''fastapi'', Some ''flask'', Some ''express'', Some ''react'']);
          has_requirements = (''requirements.txt'' \<in> set (keys files));
          has_package_json = (''package.json'' \<in> set (keys files))
      in
        ''# Generated Project\<newline>'' @
        ''\<newline>'' @
        ''## Description\<newline>'' @
        ''This project was generated by SimpleAgent. Please review the code and customize as needed.\<newline>'' @
        ''\<newline>'' @
        ''## Technology Stack\<newline>'' @
        ''- Language: '' @ lang @ ''\<newline>'' @
        (if truthy fw then ''- Framework: '' @ the fw else []) @ ''\<newline>'' @
        ''\<newline>'' @
        ''## Prerequisites\<newline>'' @
        (if lang = ''python'' then
           ''- Python 3.8 or higher\<newline>'' @
           ''- pip (Python package manager)\<newline>'' @
           (if truthy fw then ''- '' @ the fw @ '' framework\<newline>'' else [])
         else if lang \<in> set [''javascript'', ''typescript''] then
           ''- Node.js 14.x or higher\<newline>'' @
           ''- npm (Node Package Manager)\<newline>'' @
           (if truthy fw then ''- '' @ the fw @ '' framework\<newline>'' else [])
         else []) @
        ''\<newline>## Installation\<newline>\<newline>'' @
        (if lang = ''python'' then
           ''1. Create a virtual environment (recommended):\<newline>'' @
           ''   ```bash\<newline>'' @
           ''   python -m venv venv\<newline>'' @
           ''   \<newline>'' @
           ''   # On Windows:\<newline>'' @
           ''   venv'' @ [CHR 0x5C] @ ''Scripts'' @ [CHR 0x5C] @ ''activate\<newline>'' @
           ''   \<newline>'' @
           ''   # On macOS/Linux:\<newline>'' @
           ''   source venv/bin/activate\<newline>'' @
           ''   ```\<newline>'' @
           ''\<newline>'' @
           ''2. Install dependencies:\<newline>'' @
           ''   ```bash\<newline>'' @
           ''   pip install -r requirements.txt\<newline>'' @
           ''   ```\<newline>''
         else if lang \<in> set [''javascript'', ''typescript''] then
           ''1. Install dependencies:\<newline>'' @
           ''   ```bash\<newline>'' @
           ''   npm install\<newline>'' @
           ''   ```\<newline>''
         else []) @
        ''\<newline>## How to Run\<newline>\<newline>'' @
        readme_how_to_run is_web_app main_file lang fw @
        ''\<newline>## Project Structure\<newline>\<newline>'' @
        ''Key files in this project:\<newline>\<newline>'' @
        concat (map (\<lambda>filename. ''- `'' @ filename @ ''`\<newline>'') (take 10 (sort (keys files)))) @
        ''\<newline>## Usage\<newline>\<newline>'' @
        ''Please refer to the code comments and implementation for usage details.\<newline>'' @
        ''\<newline>## Notes\<newline>\<newline>'' @
        ''- This code was automatically generated. Please review and test before production use.\<newline>'' @
        ''- Make sure all dependencies are installed before running.\<newline>'' @
        (if \<not> has_requirements \<and> \<not> has_package_json
         then ''- **Important**: Dependencies file may be missing. Please check and add required packages.\<newline>''
         else []))"

section \<open>The parse result\<close>

text \<open>The dictionary with the keys \<^verbatim>\<open>files\<close> and \<^verbatim>\<open>structure\<close>.\<close>

record codebase =
  files :: "(string \<times> string) list"
  "structure" :: tree

text \<open>
  \<^verbatim>\<open>_parse_codebase_response\<close>: the scan, the alternative parser when the scan found no
  file, the empty result when there is still none, the README when none was parsed, and the
  structure tree, whose \<^verbatim>\<open>TypeError\<close> leaves the function.
\<close>

definition parse_codebase_response :: "string \<Rightarrow> analysis \<Rightarrow> error + codebase" where
  "parse_codebase_response content analysis =
     (let scanned = scan_response content;
          files = (if scanned = [] then parse_alternative_format content analysis else scanned)
      in if files = [] then Inr \<lparr>files = [], structure = Dir []\<rparr>
         else
           (let readme_exists =
                  list_ex (\<lambda>f. endswith (lower f) ''readme.md'' \<or> lower f = ''readme.md'') (keys files);
                files' =
                  (if \<not> readme_exists
                   then dict_set ''README.md''
                          (generate_comprehensive_readme files (language analysis)
                             (framework analysis) analysis) files
                   else files)
            in case build_structure_tree files' of
                 Inl e \<Rightarrow> Inl e
               | Inr t \<Rightarrow> Inr \<lparr>files = files', structure = t\<rparr>))"

section \<open>The quality gate\<close>

definition fallback_patterns :: "string list" where
  "fallback_patterns =
     [''Hello, World'', ''TODO: Implement'', ''basic template'', ''placeholder'', ''print('Hello'']"

definition declaration_keywords :: "string list" where
  "declaration_keywords = [''def '', ''class '', ''function '', ''const '', ''let '', ''var '']"

text \<open>
  The lines of \<^verbatim>\<open>content\<close> that are neither blank nor, once stripped, start with
  \<^verbatim>\<open>#\<close> or \<^verbatim>\<open>//\<close>.
\<close>

definition code_lines :: "string \<Rightarrow> string list" where
  "code_lines content =
     filter (\<lambda>line. strip line \<noteq> [] \<and> \<not> startswith (strip line) ''#''
                \<and> \<not> startswith (strip line) ''//'')
       (split_on CHR 0x0A content)"

text \<open>
  The loop over \<^verbatim>\<open>files.items()\<close> of \<^verbatim>\<open>_is_fallback_code\<close>: \<^verbatim>\<open>Some False\<close> when it
  returns from inside the loop, \<^verbatim>\<open>None\<close> when it runs to its end.
\<close>

fun fallback_loop :: "(string \<times> string) list \<Rightarrow> bool option" where
  "fallback_loop [] = None"
| "fallback_loop ((file_path, content) # rest) =
     (if list_ex (\<lambda>pattern. contains (lower content) (lower pattern)) fallback_patterns then
        (if length content > 200 then Some False
         else if list_ex (\<lambda>keyword. contains content keyword) declaration_keywords
                 \<and> length (code_lines content) > 5 then Some False
         else fallback_loop rest)
      else fallback_loop rest)"

definition total_code_lines :: "(string \<times> string) list \<Rightarrow> nat" where
  "total_code_lines fs = sum_list (map (\<lambda>(file_path, content). length (code_lines content)) fs)"

definition is_fallback_code :: "codebase \<Rightarrow> bool" where
  "is_fallback_code result =
     (if files result = [] then True
      else (case fallback_loop (files result) of
              Some r \<Rightarrow> r
            | None \<Rightarrow> total_code_lines (files result) < 10))"

section \<open>The fallback synthesizer\<close>

text \<open>\<^verbatim>\<open>_generate_python_code\<close>; its parameter \<^verbatim>\<open>requirements\<close> is never read.\<close>

definition generate_python_code :: "string \<Rightarrow> string \<Rightarrow> string option \<Rightarrow> string" where
  "generate_python_code query requirements fw =
     (let has = contains (lower query);
          header =
            [''\"\"\"\<newline>'' @
             ''Generated by SimpleAgent\<newline>'' @
             ''Query: '' @ query @ ''\<newline>'' @
             ''\"\"\"\<newline>''];
          imports =
            (if has ''api'' \<or> has ''rest'' then
               (if fw = Some ''fastapi'' then
                  [''from fastapi import FastAPI, HTTPException'',
                   ''from pydantic import BaseModel'']
                else if fw = Some ''flask'' then
                  [''from flask import Flask, request, jsonify'']
                else
                  [''from http.server import HTTPServer, BaseHTTPRequestHandler'',
                   ''import json''])
             else []) @
            (if has ''database'' \<or> has ''db'' \<or> has ''sql''
             then [''import sqlite3'', ''import os''] else []) @
            (if has ''csv'' \<or> has ''data''
             then [''import csv'', ''import pandas as pd''] else []) @
            (if has ''authentication'' \<or> has ''login'' \<or> has ''auth''
             then [''import hashlib'', ''import secrets''] else []) @
            (if has ''todo'' \<or> has ''task''
             then [''from datetime import datetime'',
                   ''from typing import List, Dict, Optional''] else []);
          import_parts = (if imports \<noteq> [] then [join newline imports, []] else []);
          body =
            (if fw = Some ''fastapi'' then
               [''app = FastAPI(title=\"Generated Application\")\<newline>'',
                ''@app.get(\"/\")\<newline>'' @
                ''def read_root():\<newline>'' @
                ''    return {\"message\": \"Application is running\"}\<newline>'',
                ''@app.get(\"/health\")\<newline>'' @
                ''def health_check():\<newline>'' @
                ''    return {\"status\": \"healthy\"}\<newline>'']
             else if fw = Some ''flask'' then
               [''app = Flask(__name__)\<newline>'',
                ''@app.route('/')\<newline>'' @
                ''def index():\<newline>'' @
                ''    return jsonify({\"message\": \"Application is running\"})\<newline>'']
             else
               [''def main():'',
                ''    \"\"\"Main function implementing the requested functionality\"\"\"''] @
               (if has ''todo'' \<or> has ''task'' then
                  [''    # Todo list functionality'',
                   ''    todos = []'',
                   ''    print(\"Todo list application initialized\")'']
                else if has ''api'' then
                  [''    # API functionality'',
                   ''    print(\"API server would start here\")'']
                else if has ''database'' then
                  [''    # Database functionality'',
                   ''    print(\"Database operations would be performed here\")'']
                else
                  [''    # Implement: '' @ take 100 query,
                   ''    print(\"Application started\")'']) @
               [[],
                ''if __name__ == \"__main__\":'',
                ''    main()''])
      in join newline (header @ import_parts @ body))"

text \<open>\<^verbatim>\<open>_generate_js_code\<close>; its parameter \<^verbatim>\<open>requirements\<close> is never read.\<close>

definition generate_js_code :: "string \<Rightarrow> string \<Rightarrow> string option \<Rightarrow> string \<Rightarrow> string" where
  "generate_js_code query requirements fw ext =
     (let header =
            (if ext = ''ts'' then
               [''// Generated by SimpleAgent'',
                ''// Query: '' @ query @ ''\<newline>'',
                ''interface Config {'',
                ''  // Add configuration interface here'',
                ''}\<newline>'']
             else
               [''// Generated by SimpleAgent'',
                ''// Query: '' @ query @ ''\<newline>'']);
          body =
            (if fw = Some ''react'' then
               [''import React from 'react';\<newline>'',
                ''function App() {'',
                ''  return ('',
                ''    <div className=\"App\">'',
                ''      <h1>Generated Application</h1>'',
                ''    </div>'',
                ''  );'',
                ''}\<newline>'',
                ''export default App;'']
             else if fw = Some ''express'' \<or> contains (lower query) ''api'' then
               [''const express = require('express');'',
                ''const app = express();\<newline>'',
                ''app.use(express.json());\<newline>'',
                ''app.get('/', (req, res) => {'',
                ''  res.json({ message: 'Application is running' });'',
                ''});\<newline>'',
                ''const PORT = process.env.PORT || 3000;'',
                ''app.listen(PORT, () => {'',
                ''  console.log(`Server running on port ${PORT}`);'',
                ''});'']
             else
               [''// Main application code'',
                ''function main() {'',
                ''  // Implement: '' @ take 80 query,
                ''  console.log('Application started');'',
                ''}\<newline>'',
                ''main();''])
      in join newline (header @ body))"

definition generate_dependencies :: "string \<Rightarrow> string \<Rightarrow> string option \<Rightarrow> string" where
  "generate_dependencies requirements lang fw =
     (let has = contains (lower requirements);
          deps =
            (if lang = ''python'' then
               (let deps1 =
                      (if fw = Some ''fastapi'' then [''fastapi==0.104.1'', ''uvicorn[standard]==0.24.0'']
                       else if fw = Some ''flask'' then [''flask==3.0.0'']
                       else []) @
                      (if has ''database'' \<or> has ''sql'' then [''sqlalchemy==2.0.23''] else []) @
                      (if has ''csv'' \<or> has ''data'' then [''pandas==2.1.3''] else [])
                in if deps1 = [] then [''# Add your dependencies here''] else deps1)
             else [])
      in if deps \<noteq> [] then join newline deps else ''# No specific dependencies identified'')"

definition generate_package_json :: "string \<Rightarrow> string option \<Rightarrow> string" where
  "generate_package_json requirements fw =
     (let deps =
            (if fw = Some ''express'' \<or> contains (lower requirements) ''api''
             then [(''express'', ''^4.18.2'')] else []) @
            (if fw = Some ''react''
             then [(''react'', ''^18.2.0''), (''react-dom'', ''^18.2.0'')] else []);
          deps_str =
            join ('','' @ newline @ ''    '')
              (map (\<lambda>(k, v). ''\"'' @ k @ ''\": \"'' @ v @ ''\"'') deps)
      in
        ''{\<newline>'' @
        ''  \"name\": \"generated-project\",\<newline>'' @
        ''  \"version\": \"1.0.0\",\<newline>'' @
        ''  \"description\": \"Generated by SimpleAgent\",\<newline>'' @
        ''  \"main\": \"main.js\",\<newline>'' @
        ''  \"scripts\": {\<newline>'' @
        ''    \"start\": \"node main.js\"\<newline>'' @
        ''  },\<newline>'' @
        ''  \"dependencies\": {\<newline>'' @
        ''    '' @ (if deps_str \<noteq> [] then deps_str else ''// Add dependencies here'') @ ''\<newline>'' @
        ''  }\<newline>'' @
        ''}'')"

definition generate_readme :: "string \<Rightarrow> string \<Rightarrow> string \<Rightarrow> string option \<Rightarrow> string" where
  "generate_readme query requirements lang fw =
     ''# Generated Project\<newline>'' @
     ''\<newline>'' @
     ''## Description\<newline>'' @
     ''This project was generated by SimpleAgent based on the following request:\<newline>'' @
     ''\<newline>'' @
     query @ ''\<newline>'' @
     ''\<newline>'' @
     ''## Requirements Identified\<newline>'' @
     requirements @ ''\<newline>'' @
     ''\<newline>'' @
     ''## Technology Stack\<newline>'' @
     ''- Language: '' @ lang @ ''\<newline>'' @
     (if truthy fw then ''- Framework: '' @ the fw else []) @ ''\<newline>'' @
     ''\<newline>'' @
     ''## Setup Instructions\<newline>'' @
     ''\<newline>'' @
     ''### Prerequisites\<newline>'' @
     ''- '' @ capitalize lang @ '' installed\<newline>'' @
     (if truthy fw then ''- '' @ the fw @ '' framework'' else []) @ ''\<newline>'' @
     ''\<newline>'' @
     ''### Installation\<newline>'' @
     (if lang = ''python'' then
        ''1. Create a virtual environment (recommended):\<newline>'' @
        ''   ```bash\<newline>'' @
        ''   python -m venv venv\<newline>'' @
        ''   source venv/bin/activate  # On Windows: venv'' @ [CHR 0x5C] @ ''Scripts'' @ [CHR 0x5C] @ ''activate\<newline>'' @
        ''   ```\<newline>'' @
        ''\<newline>'' @
        ''2. Install dependencies:\<newline>'' @
        ''   ```bash\<newline>'' @
        ''   pip install -r requirements.txt\<newline>'' @
        ''   ```\<newline>'' @
        ''\<newline>'' @
        ''3. Run the application:\<newline>'' @
        ''   ```bash\<newline>'' @
        ''   python main.py\<newline>'' @
        ''   ```\<newline>''
      else if lang \<in> set [''javascript'', ''typescript''] then
        ''1. Install dependencies:\<newline>'' @
        ''   ```bash\<newline>'' @
        ''   npm install\<newline>'' @
        ''   ```\<newline>'' @
        ''\<newline>'' @
        ''2. Run the application:\<newline>'' @
        ''   ```bash\<newline>'' @
        ''   npm start\<newline>'' @
        ''   # or\<newline>'' @
        ''   node main.js\<newline>'' @
        ''   ```\<newline>''
      else []) @
     ''\<newline>'' @
     ''## Implementation Notes\<newline>'' @
     ''This code was generated based on your query. Please review and customize as needed to fully implement all requirements.\<newline>'' @
     ''\<newline>'' @
     ''## Next Steps\<newline>'' @
     ''1. Review the generated code\<newline>'' @
     ''2. Implement any missing functionality\<newline>'' @
     ''3. Add tests\<newline>'' @
     ''4. Customize based on your specific needs\<newline>''"

text \<open>
  The files of \<^verbatim>\<open>_generate_enhanced_fallback\<close>, in the order the source stores them, and
  the function itself. Its parameter \<^verbatim>\<open>existing_result\<close> is never read; the one statement
  that can raise is the call of \<^verbatim>\<open>_build_structure_tree\<close>.
\<close>

definition fallback_files :: "string \<Rightarrow> analysis \<Rightarrow> (string \<times> string) list" where
  "fallback_files query analysis =
     (let lang = language analysis;
          fw = framework analysis;
          requirements = extract_requirements query;
          code_files =
            (if lang = ''python'' then
               dict_set ''requirements.txt'' (generate_dependencies requirements lang fw)
                 (dict_set ''main.py'' (generate_python_code query requirements fw) [])
             else if lang \<in> set [''javascript'', ''typescript''] then
               (let ext = (if lang = ''typescript'' then ''ts'' else ''js'')
                in dict_set ''package.json'' (generate_package_json requirements fw)
                     (dict_set (''main.'' @ ext) (generate_js_code query requirements fw ext) []))
             else
               dict_set (''main.'' @ lang)
                 (''// Generated by SimpleAgent\<newline>'' @
                  ''// Query: '' @ query @ ''\<newline>'' @
                  ''// Implement the requested functionality here'') [])
      in dict_set ''README.md'' (generate_readme query requirements lang fw) code_files)"

definition generate_enhanced_fallback ::
  "string \<Rightarrow> analysis \<Rightarrow> 'r option \<Rightarrow> error + codebase" where
  "generate_enhanced_fallback query analysis existing_result =
     (case build_structure_tree (fallback_files query analysis) of
        Inl e \<Rightarrow> Inl e
      | Inr t \<Rightarrow> Inr \<lparr>files = fallback_files query analysis, structure = t\<rparr>)"

section \<open>The provider adapter\<close>

text \<open>
  The settings the agent reads, and the environment variables \<^verbatim>\<open>os.getenv\<close> returns.
  The model name and the temperature only go into the request sent to the provider.
\<close>

record settings =
  OPENAI_API_KEY :: "string option"
  ANTHROPIC_API_KEY :: "string option"
  GOOGLE_API_KEY :: "string option"
  ENABLE_CODE_GENERATION :: bool

record environ =
  env_OPENAI_API_KEY :: "string option"
  env_ANTHROPIC_API_KEY :: "string option"
  env_GOOGLE_API_KEY :: "string option"

text \<open>\<^verbatim>\<open>a or b\<close> on optional strings.\<close>

definition py_or :: "string option \<Rightarrow> string option \<Rightarrow> string option" where
  "py_or a b = (if truthy a then a else b)"

record agent =
  openai_api_key :: "string option"
  anthropic_api_key :: "string option"
  google_api_key :: "string option"
  use_openai :: bool
  use_anthropic :: bool
  use_gemini :: bool

text \<open>\<^verbatim>\<open>SimpleAgent.__init__\<close>.\<close>

definition init :: "settings \<Rightarrow> environ \<Rightarrow> agent" where
  "init cfg env =
     (let openai_key = py_or (OPENAI_API_KEY cfg) (env_OPENAI_API_KEY env);
          anthropic_key = py_or (ANTHROPIC_API_KEY cfg) (env_ANTHROPIC_API_KEY env);
          google_key = py_or (GOOGLE_API_KEY cfg) (env_GOOGLE_API_KEY env);
          openai = truthy openai_key;
          anthropic = (truthy anthropic_key \<and> \<not> openai);
          gemini = (truthy google_key \<and> \<not> openai \<and> \<not> anthropic)
      in \<lparr>openai_api_key = openai_key,
          anthropic_api_key = anthropic_key,
          google_api_key = google_key,
          use_openai = openai,
          use_anthropic = anthropic,
          use_gemini = gemini\<rparr>)"

text \<open>
  What the statements of a \<^verbatim>\<open>try\<close> block up to the extraction of the reply come to: an
  exception \<^verbatim>\<open>e\<close> (import, client, network, authentication or a reply of the wrong shape),
  kept as \<^verbatim>\<open>str(e)\<close>, or the value they produce. For OpenAI and Anthropic the value is the
  reply's text. For Gemini it is the response object, of which the source reads the attribute
  \<^verbatim>\<open>text\<close>, or else the first candidate, or else neither.
\<close>

datatype 'a outcome = Raised string | Returned 'a

datatype gemini_response = Text string | Candidates string | Neither

text \<open>The outcome of each provider's call, were it made.\<close>

record network =
  openai_call :: "string outcome"
  anthropic_call :: "string outcome"
  gemini_call :: "gemini_response outcome"

text \<open>The dictionary a \<^verbatim>\<open>_generate_with_...\<close> method returns.\<close>

datatype response = Codebase codebase | Content string

text \<open>The \<^verbatim>\<open>except Exception as e\<close> block the three methods share.\<close>

definition on_exception :: "string \<Rightarrow> analysis \<Rightarrow> bool \<Rightarrow> string \<Rightarrow> error + response" where
  "on_exception query analysis codebase str_e =
     (if codebase then
        (case generate_enhanced_fallback query analysis (None :: response option) of
           Inl e \<Rightarrow> Inl e
         | Inr fallback \<Rightarrow> Inr (Codebase fallback))
      else Inr (Content (''Error generating response: '' @ str_e)))"

text \<open>
  The end of the \<^verbatim>\<open>try\<close> block, once the reply's text is there. An exception of the
  parser is caught like every other; \<^verbatim>\<open>str(e)\<close> is only read when \<^verbatim>\<open>codebase\<close> is
  false, where the parser is not called.
\<close>

definition on_reply :: "string \<Rightarrow> string \<Rightarrow> analysis \<Rightarrow> bool \<Rightarrow> error + response" where
  "on_reply content query analysis codebase =
     (if codebase then
        (case parse_codebase_response content analysis of
           Inl e \<Rightarrow> on_exception query analysis codebase []
         | Inr parsed \<Rightarrow> Inr (Codebase parsed))
      else Inr (Content content))"

definition generate_with_openai ::
  "string outcome \<Rightarrow> string \<Rightarrow> analysis \<Rightarrow> bool \<Rightarrow> error + response" where
  "generate_with_openai call query analysis codebase =
     (case call of
        Raised str_e \<Rightarrow> on_exception query analysis codebase str_e
      | Returned content \<Rightarrow> on_reply content query analysis codebase)"

definition generate_with_anthropic ::
  "string outcome \<Rightarrow> string \<Rightarrow> analysis \<Rightarrow> bool \<Rightarrow> error + response" where
  "generate_with_anthropic call query analysis codebase =
     (case call of
        Raised str_e \<Rightarrow> on_exception query analysis codebase str_e
      | Returned content \<Rightarrow> on_reply content query analysis codebase)"

definition generate_with_gemini ::
  "gemini_response outcome \<Rightarrow> string \<Rightarrow> analysis \<Rightarrow> bool \<Rightarrow> error + response" where
  "generate_with_gemini call query analysis codebase =
     (case call of
        Raised str_e \<Rightarrow> on_exception query analysis codebase str_e
      | Returned (Text content) \<Rightarrow> on_reply content query analysis codebase
      | Returned (Candidates content) \<Rightarrow> on_reply content query analysis codebase
      | Returned Neither \<Rightarrow>
          on_exception query analysis codebase ''Unable to extract text from Gemini response'')"

section \<open>The orchestrator\<close>

text \<open>
  The check \<^verbatim>\<open>not result.get("files") or self._is_fallback_code(result)\<close> and the
  replacement by the synthesizer, as each branch of \<^verbatim>\<open>_generate_codebase\<close> has them.
\<close>

definition checked :: "string \<Rightarrow> analysis \<Rightarrow> error + response \<Rightarrow> error + codebase" where
  "checked query analysis generated =
     (case generated of
        Inl e \<Rightarrow> Inl e
      | Inr (Content content) \<Rightarrow> generate_enhanced_fallback query analysis (Some (Content content))
      | Inr (Codebase result) \<Rightarrow>
          if files result = [] \<or> is_fallback_code result
          then generate_enhanced_fallback query analysis (Some (Codebase result))
          else Inr result)"

definition generate_codebase :: "agent \<Rightarrow> network \<Rightarrow> string \<Rightarrow> analysis \<Rightarrow> error + codebase" where
  "generate_codebase self net query analysis =
     (if use_openai self then
        checked query analysis (generate_with_openai (openai_call net) query analysis True)
      else if use_anthropic self then
        checked query analysis (generate_with_anthropic (anthropic_call net) query analysis True)
      else if use_gemini self then
        checked query analysis (generate_with_gemini (gemini_call net) query analysis True)
      else generate_enhanced_fallback query analysis (None :: response option))"



text \<open>The dictionary \<^verbatim>\<open>process_query\<close> returns, by its \<^verbatim>\<open>type\<close>.\<close>

datatype result =
  CodebaseResult codebase string "string option" tree
| TextResult string string


section \<open>Notions used in the statements\<close>

text \<open>
  The two tests of the loop of \<^verbatim>\<open>_is_fallback_code\<close>, and the files for which the loop
  returns \<^verbatim>\<open>False\<close>: the content holds a fallback pattern and is longer than 200 characters
  or has a declaration keyword and more than five code lines.
\<close>

definition has_fallback_pattern :: "string \<Rightarrow> bool" where
  "has_fallback_pattern content =
     list_ex (\<lambda>pattern. contains (lower content) (lower pattern)) fallback_patterns"

definition has_declaration :: "string \<Rightarrow> bool" where
  "has_declaration content =
     list_ex (\<lambda>keyword. contains content keyword) declaration_keywords"

definition real_code :: "string \<times> string \<Rightarrow> bool" where
  "real_code entry =
     (case entry of (file_path, content) \<Rightarrow>
        has_fallback_pattern content
        \<and> (length content > 200 \<or> has_declaration content \<and> length (code_lines content) > 5))"

text \<open>
  The quality gate as the specification words it: no file, or every file holds one of four
  placeholder phrases and is under 200 characters or lacks a declaration keyword with more
  than five code lines, or fewer than ten code lines in all.
\<close>

definition claimed_placeholder_phrases :: "string list" where
  "claimed_placeholder_phrases =
     [''hello, world'', ''todo: implement'', ''basic template'', ''placeholder'']"

definition claimed_fallback_quality :: "codebase \<Rightarrow> bool" where
  "claimed_fallback_quality result =
     (files result = []
      \<or> list_all (\<lambda>(file_path, content).
            list_ex (\<lambda>phrase. contains (lower content) phrase) claimed_placeholder_phrases
            \<and> (length content < 200
                \<or> \<not> (has_declaration content \<and> length (code_lines content) > 5)))
          (files result)
      \<or> total_code_lines (files result) < 10)"

text \<open>Three files of nine, nine and ten code lines.\<close>

definition nine_line_file :: string where
  "nine_line_file =
     ''def f():\<newline>    placeholder = 1\<newline>    a = 2\<newline>    b = 3\<newline>    c = 4\<newline>    d = 5\<newline>    e = 6\<newline>    g = 7\<newline>    return a''"

definition nine_plain_lines :: string where
  "nine_plain_lines =
     ''a = 1\<newline>b = 2\<newline>c = 3\<newline>d = 4\<newline>e = 5\<newline>f = 6\<newline>g = 7\<newline>h = 8\<newline>i = 9''"

definition ten_plain_lines :: string where
  "ten_plain_lines =
     ''a = 1\<newline>b = 2\<newline>c = 3\<newline>d = 4\<newline>e = 5\<newline>f = 6\<newline>g = 7\<newline>h = 8\<newline>i = 9\<newline>j = 10''"

definition single_file :: "string \<Rightarrow> string \<Rightarrow> codebase" where
  "single_file file_path content =
     \<lparr>files = [(file_path, content)], structure = Dir [(file_path, File)]\<rparr>"

text \<open>The paths at which a tree holds the marker \<^verbatim>\<open>"file"\<close>.\<close>

definition leaves :: "tree \<Rightarrow> string list set" where
  "leaves t = {parts. lookup t parts = Some File}"

text \<open>\<^verbatim>\<open>file_path.split('/')\<close>.\<close>

definition segments :: "string \<Rightarrow> string list" where
  "segments file_path = split_on CHR ''/'' file_path"

text \<open>No path of the set is a proper prefix, segment by segment, of another one.\<close>

definition prefix_free :: "string list set \<Rightarrow> bool" where
  "prefix_free P = (\<forall>p \<in> P. \<forall>q \<in> P. \<not> strict_prefix p q)"

text \<open>A path is blocked in a tree that has a leaf strictly above it.\<close>

definition blocked :: "tree \<Rightarrow> string list \<Rightarrow> bool" where
  "blocked t parts = (\<exists>r. strict_prefix r parts \<and> lookup t r = Some File)"

text \<open>
  A provider reply that names a file and then a file below it, the reply that names the two
  in the other order, and the files of a project.
\<close>

definition nested_reply :: string where
  "nested_reply = ''FILE: a\<newline>x = 1\<newline>FILE: a/b\<newline>y = 2''"

definition reversed_reply :: string where
  "reversed_reply = ''FILE: a/b\<newline>y = 2\<newline>FILE: a\<newline>x = 1''"

definition project_files :: "(string \<times> string) list" where
  "project_files = [(''src/app/main.py'', ''x''), (''src/util.py'', ''y''), (''README.md'', ''z'')]"

text \<open>Settings with and without credentials, and a network on which every call fails.\<close>

definition no_keys :: settings where
  "no_keys = \<lparr>OPENAI_API_KEY = None, ANTHROPIC_API_KEY = None, GOOGLE_API_KEY = Some [],
              ENABLE_CODE_GENERATION = True\<rparr>"

definition empty_environ :: environ where
  "empty_environ = \<lparr>env_OPENAI_API_KEY = None, env_ANTHROPIC_API_KEY = None,
                    env_GOOGLE_API_KEY = None\<rparr>"

definition two_keys :: settings where
  "two_keys = \<lparr>OPENAI_API_KEY = None, ANTHROPIC_API_KEY = Some ''sk-ant'', GOOGLE_API_KEY = Some ''g'',
               ENABLE_CODE_GENERATION = True\<rparr>"

definition failing_network :: network where
  "failing_network = \<lparr>openai_call = Raised ''timeout'', anthropic_call = Raised ''timeout'',
                      gemini_call = Raised ''timeout''\<rparr>"

text \<open>Provider replies the statements are evaluated at.\<close>

definition two_python_blocks :: string where
  "two_python_blocks = ''```python\<newline>a = 1\<newline>```\<newline>```python\<newline>b = 2\<newline>```''"

definition untagged_block :: string where
  "untagged_block = ''```\<newline>loose prose\<newline>```''"

definition two_prose_lines :: string where
  "two_prose_lines = ''first line\<newline>second line''"

definition indented_reply :: string where
  "indented_reply = ''FILE: a.py\<newline>    x = 1\<newline>y = 2  ''"

text \<open>
  The content of a committed file as the specification words it: the accumulated lines
  without their leading and trailing blank lines, every other character kept.
\<close>

definition blank_line :: "string \<Rightarrow> bool" where
  "blank_line line = (strip line = [])"

definition claimed_commit_content :: "string list \<Rightarrow> string" where
  "claimed_commit_content content =
     join newline (rev (dropWhile blank_line (rev (dropWhile blank_line content))))"

text \<open>The scanner's state inside an open block of \<^verbatim>\<open>a.py\<close>, and inside an untagged block.\<close>

definition open_block_state :: parse_state where
  "open_block_state =
     \<lparr>parsed_files = [], current_file = Some ''a.py'',
      current_content = [''    x = 1'', ''y = 2  ''],
      in_code_block = True, code_block_lang = Some ''python''\<rparr>"

definition untagged_block_state :: parse_state where
  "untagged_block_state =
     \<lparr>parsed_files = [], current_file = None, current_content = [],
      in_code_block = True, code_block_lang = Some []\<rparr>"














section \<open>Properties of the classifier\<close>

lemma keyword_score_count:
  "keyword_score kws query_lower =
     int (length (filter (\<lambda>keyword. contains query_lower keyword) kws))"
  unfolding keyword_score_def by (induction kws) auto

text \<open>
  C2: for every query, the empty one included, \<^verbatim>\<open>should_generate_code\<close> is true exactly when
  \<^verbatim>\<open>code_score > text_score\<close> and \<^verbatim>\<open>code_score > 0\<close>, where the two scores count the
  keywords of the two vocabularies that occur in the lower-cased query; whenever the scores
  are equal (both zero included) \<^verbatim>\<open>should_generate_code\<close> is false.
\<close>

theorem analyze_query_decision:
  "code_score (analyze_query query) =
     int (length (filter (\<lambda>keyword. contains (lower query) keyword) code_keywords))
   \<and> text_score (analyze_query query) =
     int (length (filter (\<lambda>keyword. contains (lower query) keyword) text_keywords))
   \<and> should_generate_code (analyze_query query) =
     (code_score (analyze_query query) > text_score (analyze_query query)
      \<and> code_score (analyze_query query) > 0)
   \<and> (code_score (analyze_query query) = text_score (analyze_query query)
        \<longrightarrow> \<not> should_generate_code (analyze_query query))"
  by (simp add: analyze_query_def Let_def keyword_score_count)

theorem analyze_query_decision_witness:
  "code_score (analyze_query ''Explain the API'') = 1
   \<and> text_score (analyze_query ''Explain the API'') = 1
   \<and> \<not> should_generate_code (analyze_query ''Explain the API'')
   \<and> code_score (analyze_query []) = 0
   \<and> text_score (analyze_query []) = 0
   \<and> \<not> should_generate_code (analyze_query [])"
proof -
  have c: "code_score (analyze_query ''Explain the API'') = 1"
    by code_simp
  have t: "text_score (analyze_query ''Explain the API'') = 1"
    by code_simp
  have c0: "code_score (analyze_query []) = 0"
    by code_simp
  have t0: "text_score (analyze_query []) = 0"
    by code_simp
  from c t c0 t0
    analyze_query_decision [of "''Explain the API''"]
    analyze_query_decision [of "[]"]
  show ?thesis by simp
qed

section \<open>Properties of the quality gate\<close>

lemma fallback_loop_cases:
  "fallback_loop fs = (if list_ex real_code fs then Some False else None)"
  by (induction fs rule: fallback_loop.induct)
     (auto simp: real_code_def has_fallback_pattern_def has_declaration_def)

text \<open>
  C1, as the code has it: a parse result is fallback-quality exactly when it has no file, or
  when no file both holds a fallback pattern (one of five, \<^verbatim>\<open>print('Hello\<close> among them) and
  is longer than 200 characters or has a declaration keyword with more than five code lines,
  and the code lines of all files together are fewer than ten. A result with ten code lines
  or more is never fallback-quality; a single file of exactly nine code lines is
  fallback-quality unless it is such a file.
\<close>

theorem is_fallback_code_gate:
  "is_fallback_code result =
     (files result = []
      \<or> (\<not> list_ex real_code (files result) \<and> total_code_lines (files result) < 10))
   \<and> (10 \<le> total_code_lines (files result) \<longrightarrow> \<not> is_fallback_code result)
   \<and> (files result = [(file_path, content)] \<and> length (code_lines content) = 9
        \<and> \<not> real_code (file_path, content) \<longrightarrow> is_fallback_code result)"
  by (auto simp: is_fallback_code_def fallback_loop_cases total_code_lines_def)

theorem is_fallback_code_gate_witness:
  "total_code_lines (files (single_file ''main.py'' ten_plain_lines)) = 10
   \<and> \<not> is_fallback_code (single_file ''main.py'' ten_plain_lines)
   \<and> length (code_lines nine_plain_lines) = 9
   \<and> is_fallback_code (single_file ''main.py'' nine_plain_lines)"
proof -
  have ten: "total_code_lines (files (single_file ''main.py'' ten_plain_lines)) = 10"
    by code_simp
  have nine: "files (single_file ''main.py'' nine_plain_lines) = [(''main.py'', nine_plain_lines)]
      \<and> length (code_lines nine_plain_lines) = 9
      \<and> \<not> real_code (''main.py'', nine_plain_lines)"
    by code_simp
  have "10 \<le> total_code_lines (files (single_file ''main.py'' ten_plain_lines))
      \<longrightarrow> \<not> is_fallback_code (single_file ''main.py'' ten_plain_lines)"
    using is_fallback_code_gate [of "single_file ''main.py'' ten_plain_lines" "[]" "[]"]
    by blast
  with ten have a: "\<not> is_fallback_code (single_file ''main.py'' ten_plain_lines)"
    by simp
  have "files (single_file ''main.py'' nine_plain_lines) = [(''main.py'', nine_plain_lines)]
      \<and> length (code_lines nine_plain_lines) = 9
      \<and> \<not> real_code (''main.py'', nine_plain_lines)
      \<longrightarrow> is_fallback_code (single_file ''main.py'' nine_plain_lines)"
    using is_fallback_code_gate
      [of "single_file ''main.py'' nine_plain_lines" "''main.py''" nine_plain_lines]
    by blast
  with nine have b: "is_fallback_code (single_file ''main.py'' nine_plain_lines)"
    by blast
  from ten a nine b show ?thesis by blast
qed

text \<open>
  The claim fails at a single file of nine code lines that holds \<^verbatim>\<open>placeholder\<close> and a
  \<^verbatim>\<open>def\<close>: the claim makes it fallback-quality, the code does not.
\<close>

theorem is_fallback_code_counterexample:
  "length (code_lines nine_line_file) = 9
   \<and> claimed_fallback_quality (single_file ''main.py'' nine_line_file)
   \<and> \<not> is_fallback_code (single_file ''main.py'' nine_line_file)"
  by code_simp

section \<open>Properties of the structure tree\<close>

lemma split_on_not_Nil: "split_on sep s \<noteq> []"
  by (induction s) (auto split: list.splits)

lemma map_of_dict_set: "map_of (dict_set k v d) k' = (if k' = k then Some v else map_of d k')"
  by (induction d) auto

lemma lookup_Dir_Nil: "lookup (Dir []) parts = Some File \<longleftrightarrow> False"
  by (cases parts) auto

lemma lookup_append:
  "lookup t (ps @ qs) = (case lookup t ps of None \<Rightarrow> None | Some sub \<Rightarrow> lookup sub qs)"
  by (induction t ps rule: lookup.induct) (auto split: option.splits)

lemma lookup_below_leaf:
  assumes "lookup t ps = Some File" "strict_prefix ps qs"
  shows "lookup t qs = None"
proof -
  from assms(2) obtain x xs where "qs = ps @ x # xs"
    by (rule strict_prefixE')
  with assms(1) show ?thesis by (simp add: lookup_append)
qed

lemma place_error:
  "place ps t = Inl e \<Longrightarrow> ps \<noteq> [] \<Longrightarrow> e = TypeError \<and> (\<exists>r. strict_prefix r ps \<and> lookup t r = Some File)"
proof (induction ps t rule: place.induct)
  case (1 current) then show ?case by simp
next
  case (2 part parts)
  then show ?case by (auto intro: exI [of _ "[]"])
next
  case (3 part d) then show ?case by simp
next
  case (4 part next_part parts d)
  let ?sub = "case map_of d part of None \<Rightarrow> Dir [] | Some sub \<Rightarrow> sub"
  from "4.prems" have f: "place (next_part # parts) ?sub = Inl e"
    by (auto split: sum.splits)
  from "4.IH" [OF f] obtain r where e: "e = TypeError"
    and r: "strict_prefix r (next_part # parts)" "lookup ?sub r = Some File"
    by auto
  from r(2) obtain sub where s: "map_of d part = Some sub" "lookup sub r = Some File"
    by (cases "map_of d part") (auto simp: lookup_Dir_Nil)
  then have "lookup (Dir d) (part # r) = Some File" by simp
  moreover from r(1) have "strict_prefix (part # r) (part # next_part # parts)" by simp
  ultimately show ?case using e by blast
qed

lemma place_blocked:
  "strict_prefix r ps \<Longrightarrow> lookup t r = Some File \<Longrightarrow> place ps t = Inl TypeError"
proof (induction ps t arbitrary: r rule: place.induct)
  case (1 current) then show ?case by simp
next
  case (2 part parts) then show ?case by simp
next
  case (3 part d)
  then have "r = []" by (cases r) (auto simp: strict_prefix_def)
  with 3 show ?case by simp
next
  case (4 part next_part parts d)
  from "4.prems" obtain r' where r: "r = part # r'" "strict_prefix r' (next_part # parts)"
    by (cases r) auto
  with "4.prems" obtain sub where s: "map_of d part = Some sub" "lookup sub r' = Some File"
    by (auto split: option.splits)
  from "4.IH" [OF r(2)] s have "place (next_part # parts) sub = Inl TypeError" by simp
  with s show ?case by simp
qed

lemma place_self: "place ps t = Inr t' \<Longrightarrow> lookup t' ps = Some File"
  by (induction ps t arbitrary: t' rule: place.induct)
     (auto simp: map_of_dict_set split: sum.splits)

lemma place_other:
  "place ps t = Inr t' \<Longrightarrow> \<not> prefix ps qs \<Longrightarrow> \<not> prefix qs ps \<Longrightarrow> lookup t' qs = lookup t qs"
proof (induction ps t arbitrary: t' qs rule: place.induct)
  case (1 current) then show ?case by simp
next
  case (2 part parts) then show ?case by simp
next
  case (3 part d)
  then show ?case by (cases qs) (auto simp: map_of_dict_set)
next
  case (4 part next_part parts d)
  let ?sub = "case map_of d part of None \<Rightarrow> Dir [] | Some sub \<Rightarrow> sub"
  from "4.prems"(1) obtain sub' where p: "place (next_part # parts) ?sub = Inr sub'"
    and t': "t' = Dir (dict_set part sub' d)"
    by (auto split: sum.splits)
  from "4.prems"(3) obtain x xs where qs: "qs = x # xs" by (cases qs) auto
  show ?case
  proof (cases "x = part")
    case False
    with qs t' show ?thesis by (simp add: map_of_dict_set)
  next
    case True
    with qs "4.prems" have inc: "\<not> prefix (next_part # parts) xs" "\<not> prefix xs (next_part # parts)"
      by auto
    from "4.IH" [OF p inc] have eq: "lookup sub' xs = lookup ?sub xs" .
    from inc(2) obtain y ys where "xs = y # ys" by (cases xs) auto
    with eq True qs t' show ?thesis
      by (auto simp: map_of_dict_set split: option.splits)
  qed
qed

lemma place_above:
  "place ps t = Inr t' \<Longrightarrow> strict_prefix r ps \<Longrightarrow> lookup t' r \<noteq> Some File"
proof
  assume a: "place ps t = Inr t'" "strict_prefix r ps" "lookup t' r = Some File"
  from lookup_below_leaf [OF a(3) a(2)] place_self [OF a(1)] show False by simp
qed

lemma leaves_place:
  assumes "place ps t = Inr t'"
    and "\<forall>r \<in> leaves t. \<not> strict_prefix ps r"
  shows "leaves t' = insert ps (leaves t)"
proof (intro set_eqI iffI)
  fix r assume "r \<in> leaves t'"
  then have l: "lookup t' r = Some File" by (simp add: leaves_def)
  show "r \<in> insert ps (leaves t)"
  proof (cases "r = ps")
    case True then show ?thesis by simp
  next
    case False
    have "\<not> strict_prefix r ps" using place_above [OF assms(1)] l by blast
    moreover have "\<not> strict_prefix ps r"
      using lookup_below_leaf [OF place_self [OF assms(1)]] l by fastforce
    ultimately have "\<not> prefix ps r" "\<not> prefix r ps" using False
      by (auto simp: strict_prefix_def)
    from place_other [OF assms(1) this] l show ?thesis by (simp add: leaves_def)
  qed
next
  fix r assume a: "r \<in> insert ps (leaves t)"
  show "r \<in> leaves t'"
  proof (cases "r = ps")
    case True with place_self [OF assms(1)] show ?thesis by (simp add: leaves_def)
  next
    case False
    with a have l: "lookup t r = Some File" by (simp add: leaves_def)
    have "ps \<noteq> []" using assms(1) by (cases ps) auto
    have "\<not> strict_prefix r ps"
      using place_blocked [OF _ l] assms(1) by fastforce
    moreover have "\<not> strict_prefix ps r" using assms(2) l by (auto simp: leaves_def)
    ultimately have "\<not> prefix ps r" "\<not> prefix r ps" using False
      by (auto simp: strict_prefix_def)
    from place_other [OF assms(1) this] l show ?thesis by (simp add: leaves_def)
  qed
qed

lemma segments_not_Nil: "segments file_path \<noteq> []"
  by (simp add: segments_def split_on_not_Nil)

lemma build_from_Cons:
  "build_from t (file_path # file_paths) =
     (case place (segments file_path) t of
        Inl e \<Rightarrow> Inl e
      | Inr t' \<Rightarrow> build_from t' file_paths)"
  by (simp add: segments_def)

lemma build_from_leaves:
  "prefix_free (leaves t \<union> segments ` set file_paths) \<Longrightarrow>
   \<exists>t'. build_from t file_paths = Inr t' \<and> leaves t' = leaves t \<union> segments ` set file_paths"
proof (induction file_paths arbitrary: t)
  case Nil
  then show ?case by simp
next
  case (Cons file_path file_paths)
  let ?ps = "segments file_path"
  have free: "\<forall>r \<in> leaves t. \<not> strict_prefix r ?ps \<and> \<not> strict_prefix ?ps r"
    using Cons.prems by (auto simp: prefix_free_def)
  obtain t1 where p: "place ?ps t = Inr t1"
  proof (cases "place ?ps t")
    case (Inl e)
    from place_error [OF Inl segments_not_Nil] free show ?thesis
      by (auto simp: leaves_def)
  next
    case (Inr t1) with that show ?thesis .
  qed
  from leaves_place [OF p] free have l: "leaves t1 = insert ?ps (leaves t)" by blast
  then have "leaves t1 \<union> segments ` set file_paths
      = leaves t \<union> segments ` set (file_path # file_paths)" by auto
  with Cons.prems Cons.IH [of t1] p show ?case
    by (auto simp: build_from_Cons simp del: build_from.simps)
qed

lemma build_from_error: "build_from t file_paths = Inl e \<Longrightarrow> e = TypeError"
proof (induction file_paths arbitrary: t)
  case Nil then show ?case by simp
next
  case (Cons file_path file_paths)
  show ?case
  proof (cases "place (segments file_path) t")
    case (Inl e')
    with Cons.prems place_error [OF Inl segments_not_Nil] show ?thesis
      by (simp add: build_from_Cons del: build_from.simps)
  next
    case (Inr t1)
    with Cons show ?thesis by (simp add: build_from_Cons del: build_from.simps)
  qed
qed

lemma build_from_append:
  "build_from t (as @ bs) =
     (case build_from t as of Inl e \<Rightarrow> Inl e | Inr t' \<Rightarrow> build_from t' bs)"
  by (induction as arbitrary: t) (auto split: sum.splits)

lemma blocked_place:
  assumes "blocked t qs" "place ps t = Inr t'"
  shows "blocked t' qs"
proof -
  from assms(1) obtain r where r: "strict_prefix r qs" "lookup t r = Some File"
    by (auto simp: blocked_def)
  have nsp: "\<not> strict_prefix r ps"
    using place_blocked [OF _ r(2)] assms(2) by fastforce
  show ?thesis
  proof (cases "prefix ps r")
    case True
    with r(1) have "strict_prefix ps qs" by (auto simp: strict_prefix_def dest: prefix_order.trans)
    with place_self [OF assms(2)] show ?thesis by (auto simp: blocked_def)
  next
    case False
    with nsp have "\<not> prefix ps r" "\<not> prefix r ps" by (auto simp: strict_prefix_def)
    from place_other [OF assms(2) this] r show ?thesis by (auto simp: blocked_def)
  qed
qed

lemma build_from_blocked:
  "blocked t (segments q) \<Longrightarrow> q \<in> set file_paths \<Longrightarrow> build_from t file_paths = Inl TypeError"
proof (induction file_paths arbitrary: t)
  case Nil then show ?case by simp
next
  case (Cons file_path file_paths)
  show ?case
  proof (cases "place (segments file_path) t")
    case (Inl e)
    with place_error [OF Inl segments_not_Nil] show ?thesis
      by (simp add: build_from_Cons del: build_from.simps)
  next
    case (Inr t1)
    have "file_path \<noteq> q"
    proof
      assume "file_path = q"
      with Cons.prems(1) obtain r where "strict_prefix r (segments file_path)" "lookup t r = Some File"
        by (auto simp: blocked_def)
      from place_blocked [OF this] Inr show False by simp
    qed
    with Cons.prems have "q \<in> set file_paths" by simp
    with Cons.IH [OF blocked_place [OF Cons.prems(1) Inr]] Inr show ?thesis
      by (simp add: build_from_Cons del: build_from.simps)
  qed
qed

lemma build_structure_tree_prefix:
  assumes "strict_prefix (segments p) (segments q)"
  shows "build_structure_tree (xs @ (p, c) # ys @ (q, c') # zs) = Inl TypeError"
proof -
  let ?rest = "keys ys @ q # keys zs"
  have k: "keys (xs @ (p, c) # ys @ (q, c') # zs) = keys xs @ p # ?rest"
    by (simp add: keys_def)
  show ?thesis
  proof (cases "build_from (Dir []) (keys xs)")
    case (Inl e)
    with build_from_error [OF Inl] show ?thesis
      by (simp add: build_structure_tree_def k build_from_append)
  next
    case (Inr t1)
    show ?thesis
    proof (cases "place (segments p) t1")
      case (Inl e)
      with place_error [OF Inl segments_not_Nil] Inr show ?thesis
        by (simp add: build_structure_tree_def k build_from_append build_from_Cons
              del: build_from.simps)
    next
      case (Inr t2)
      from place_self [OF Inr] assms have "blocked t2 (segments q)"
        by (auto simp: blocked_def)
      from build_from_blocked [OF this, of ?rest] have "build_from t2 ?rest = Inl TypeError"
        by simp
      with Inr \<open>build_from (Dir []) (keys xs) = Inr t1\<close> show ?thesis
        by (simp add: build_structure_tree_def k build_from_append build_from_Cons
              del: build_from.simps)
    qed
  qed
qed

lemma leaves_empty: "leaves (Dir []) = {}"
  by (auto simp: leaves_def lookup_Dir_Nil)

lemma build_structure_tree_iff:
  "(\<exists>t. build_structure_tree fs = Inr t
        \<and> (\<forall>file_path \<in> set (keys fs). lookup t (segments file_path) = Some File))
   \<longleftrightarrow> prefix_free (segments ` set (keys fs))"
proof
  assume "\<exists>t. build_structure_tree fs = Inr t
        \<and> (\<forall>file_path \<in> set (keys fs). lookup t (segments file_path) = Some File)"
  then obtain t where t: "\<forall>file_path \<in> set (keys fs). lookup t (segments file_path) = Some File"
    by blast
  show "prefix_free (segments ` set (keys fs))"
    unfolding prefix_free_def
  proof (intro ballI notI)
    fix p q assume "p \<in> segments ` set (keys fs)" "q \<in> segments ` set (keys fs)" "strict_prefix p q"
    with t lookup_below_leaf [of t p q] show False by auto
  qed
next
  assume "prefix_free (segments ` set (keys fs))"
  then have "prefix_free (leaves (Dir []) \<union> segments ` set (keys fs))"
    by (simp add: leaves_empty)
  from build_from_leaves [OF this] show "\<exists>t. build_structure_tree fs = Inr t
        \<and> (\<forall>file_path \<in> set (keys fs). lookup t (segments file_path) = Some File)"
    by (auto simp: build_structure_tree_def leaves_def leaves_empty)
qed

lemma scan_nested_reply: "scan_response nested_reply = [(''a'', ''x = 1''), (''a/b'', ''y = 2'')]"
  by code_simp

lemma parse_nested_reply: "parse_codebase_response nested_reply analysis = Inl TypeError"
proof -
  have r: "\<not> list_ex (\<lambda>f. endswith (lower f) ''readme.md'' \<or> lower f = ''readme.md'')
            (keys [(''a'', ''x = 1''), (''a/b'', ''y = 2'')])"
    by code_simp
  have p: "strict_prefix (segments ''a'') (segments ''a/b'')"
    by code_simp
  have "build_structure_tree ([] @ (''a'', ''x = 1'') # [] @ (''a/b'', ''y = 2'') # [(''README.md'', c)])
      = Inl TypeError" for c
    using p by (rule build_structure_tree_prefix)
  then show ?thesis
    by (simp add: parse_codebase_response_def scan_nested_reply r Let_def)
qed

lemma leaves_place_subset:
  assumes "place ps t = Inr t'"
  shows "leaves t' \<subseteq> insert ps (leaves t)"
proof
  fix r assume "r \<in> leaves t'"
  then have l: "lookup t' r = Some File" by (simp add: leaves_def)
  show "r \<in> insert ps (leaves t)"
  proof (cases "r = ps")
    case True then show ?thesis by simp
  next
    case False
    have "\<not> strict_prefix r ps" using place_above [OF assms] l by blast
    moreover have "\<not> strict_prefix ps r"
      using lookup_below_leaf [OF place_self [OF assms]] l by fastforce
    ultimately have "\<not> prefix ps r" "\<not> prefix r ps" using False
      by (auto simp: strict_prefix_def)
    from place_other [OF assms this] l show ?thesis by (simp add: leaves_def)
  qed
qed

lemma build_from_leaves_subset:
  "build_from t file_paths = Inr t' \<Longrightarrow> leaves t' \<subseteq> leaves t \<union> segments ` set file_paths"
proof (induction file_paths arbitrary: t)
  case Nil then show ?case by simp
next
  case (Cons file_path file_paths)
  from Cons.prems obtain t1 where p: "place (segments file_path) t = Inr t1"
    and b: "build_from t1 file_paths = Inr t'"
    by (auto simp: build_from_Cons simp del: build_from.simps split: sum.splits)
  from Cons.IH [OF b] leaves_place_subset [OF p] show ?case by auto
qed

lemma build_from_failure:
  "build_from t file_paths = Inl e \<Longrightarrow>
   \<exists>as file_path bs t1. file_paths = as @ file_path # bs \<and> build_from t as = Inr t1
      \<and> place (segments file_path) t1 = Inl e"
proof (induction file_paths arbitrary: t)
  case Nil then show ?case by simp
next
  case (Cons file_path file_paths)
  show ?case
  proof (cases "place (segments file_path) t")
    case (Inl e')
    with Cons.prems have "e' = e" by (simp add: build_from_Cons del: build_from.simps)
    with Inl have "file_path # file_paths = [] @ file_path # file_paths \<and> build_from t [] = Inr t
      \<and> place (segments file_path) t = Inl e" by simp
    then show ?thesis by blast
  next
    case (Inr t1)
    with Cons.prems have "build_from t1 file_paths = Inl e"
      by (simp add: build_from_Cons del: build_from.simps)
    from Cons.IH [OF this] obtain as k bs t2 where
      "file_paths = as @ k # bs" "build_from t1 as = Inr t2" "place (segments k) t2 = Inl e"
      by blast
    with Inr have "file_path # file_paths = (file_path # as) @ k # bs
      \<and> build_from t (file_path # as) = Inr t2 \<and> place (segments k) t2 = Inl e"
      by (simp add: build_from_Cons del: build_from.simps)
    then show ?thesis by blast
  qed
qed

lemma build_from_keeps_blocked:
  "build_from t file_paths = Inr t' \<Longrightarrow> blocked t qs \<Longrightarrow> blocked t' qs"
proof (induction file_paths arbitrary: t)
  case Nil then show ?case by simp
next
  case (Cons file_path file_paths)
  from Cons.prems(1) obtain t1 where p: "place (segments file_path) t = Inr t1"
    and b: "build_from t1 file_paths = Inr t'"
    by (auto simp: build_from_Cons simp del: build_from.simps split: sum.splits)
  from Cons.IH [OF b blocked_place [OF Cons.prems(2) p]] show ?case .
qed

lemma keys_split:
  assumes "keys fs = as @ p # bs @ q # cs"
  shows "\<exists>xs c ys c' zs. fs = xs @ (p, c) # ys @ (q, c') # zs"
proof -
  from assms obtain xs r where 1: "fs = xs @ r" "map fst xs = as" "map fst r = p # bs @ q # cs"
    unfolding keys_def by (auto simp: map_eq_append_conv)
  from 1(3) obtain x r' where 2: "r = x # r'" "fst x = p" "map fst r' = bs @ q # cs"
    by (auto simp: map_eq_Cons_conv)
  from 2(3) obtain ys r'' where 3: "r' = ys @ r''" "map fst r'' = q # cs"
    by (auto simp: map_eq_append_conv)
  from 3(2) obtain y zs where 4: "r'' = y # zs" "fst y = q"
    by (auto simp: map_eq_Cons_conv)
  from 1 2 3 4 have "fs = xs @ (p, snd x) # ys @ (q, snd y) # zs" by auto
  then show ?thesis by blast
qed

lemma build_structure_tree_raises:
  assumes "build_structure_tree fs = Inl e"
  shows "e = TypeError \<and> (\<exists>xs p c ys q c' zs. fs = xs @ (p, c) # ys @ (q, c') # zs
            \<and> strict_prefix (segments p) (segments q))"
proof -
  from assms have b: "build_from (Dir []) (keys fs) = Inl e" by (simp add: build_structure_tree_def)
  from build_from_failure [OF b] obtain as q bs t1 where
    k: "keys fs = as @ q # bs" and t1: "build_from (Dir []) as = Inr t1"
    and f: "place (segments q) t1 = Inl e"
    by blast
  from place_error [OF f segments_not_Nil] obtain r where e: "e = TypeError"
    and r: "strict_prefix r (segments q)" "lookup t1 r = Some File"
    by blast
  from r(2) have "r \<in> leaves t1" by (simp add: leaves_def)
  with build_from_leaves_subset [OF t1] have "r \<in> segments ` set as"
    by (auto simp: leaves_empty)
  then obtain p where p: "p \<in> set as" "r = segments p" by blast
  from p(1) obtain as1 as2 where "as = as1 @ p # as2" by (auto dest: split_list)
  with k have "keys fs = as1 @ p # as2 @ q # bs" by simp
  from keys_split [OF this] obtain xs c ys c' zs where "fs = xs @ (p, c) # ys @ (q, c') # zs"
    by blast
  with e r(1) p(2) show ?thesis by blast
qed

lemma build_structure_tree_raises_iff:
  "build_structure_tree fs = Inl e
   \<longleftrightarrow> e = TypeError \<and> (\<exists>xs p c ys q c' zs. fs = xs @ (p, c) # ys @ (q, c') # zs
            \<and> strict_prefix (segments p) (segments q))"
  using build_structure_tree_raises [of fs e] build_structure_tree_prefix by blast

lemma build_structure_tree_overwrites:
  assumes "strict_prefix (segments p) (segments q)"
    and "build_structure_tree (xs @ (p, c) # zs) = Inr t"
  shows "lookup t (segments q) = None"
proof -
  from assms(2) have b: "build_from (Dir []) (keys xs @ p # keys zs) = Inr t"
    by (simp add: build_structure_tree_def keys_def)
  then obtain t1 where t1: "build_from (Dir []) (keys xs) = Inr t1"
    and b1: "build_from t1 (p # keys zs) = Inr t"
    by (auto simp: build_from_append split: sum.splits)
  from b1 obtain t2 where t2: "place (segments p) t1 = Inr t2"
    and b2: "build_from t2 (keys zs) = Inr t"
    by (auto simp: build_from_Cons simp del: build_from.simps split: sum.splits)
  from place_self [OF t2] assms(1) have "blocked t2 (segments q)" by (auto simp: blocked_def)
  from build_from_keeps_blocked [OF b2 this] obtain r where
    "strict_prefix r (segments q)" "lookup t r = Some File"
    by (auto simp: blocked_def)
  from lookup_below_leaf [OF this(2) this(1)] show ?thesis .
qed

lemma scan_reversed_reply: "scan_response reversed_reply = [(''a/b'', ''y = 2''), (''a'', ''x = 1'')]"
  by code_simp

lemma build_reversed:
  "build_structure_tree [(''a/b'', c), (''a'', c')] = Inr (Dir [(''a'', File)])"
  by (simp add: build_structure_tree_def keys_def)

lemma build_reversed_readme:
  "build_structure_tree [(''a/b'', c), (''a'', c'), (''README.md'', c'')]
     = Inr (Dir [(''a'', File), (''README.md'', File)])"
  by (simp add: build_structure_tree_def keys_def)

lemma parse_reversed_reply:
  "\<exists>readme. parse_codebase_response reversed_reply analysis
     = Inr \<lparr>files = [(''a/b'', ''y = 2''), (''a'', ''x = 1''), (''README.md'', readme)],
            structure = Dir [(''a'', File), (''README.md'', File)]\<rparr>"
proof -
  have r: "\<not> list_ex (\<lambda>f. endswith (lower f) ''readme.md'' \<or> lower f = ''readme.md'')
            (keys [(''a/b'', ''y = 2''), (''a'', ''x = 1'')])"
    by code_simp
  show ?thesis
    by (simp add: parse_codebase_response_def scan_reversed_reply r Let_def build_reversed_readme)
qed

text \<open>
  C10: building the structure tree succeeds and marks the last segment of every file path as
  a leaf exactly when no file path is a proper prefix, segment by segment, of another one.
  It raises, and then \<^verbatim>\<open>TypeError\<close>, exactly when some path is stored before a path that
  extends it: the walk steps into the leaf marker of the shorter path and the next item
  assignment fails; the reply \<^verbatim>\<open>nested_reply\<close> makes the parser reach that error. When the
  longer path is stored first and the tree is built, the shorter path has replaced the
  directory of the longer one, which is no longer in the tree.
\<close>

theorem build_structure_tree_total_iff_prefix_free:
  "((\<exists>t. build_structure_tree fs = Inr t
         \<and> (\<forall>file_path \<in> set (keys fs). lookup t (segments file_path) = Some File))
    \<longleftrightarrow> prefix_free (segments ` set (keys fs)))
   \<and> (build_structure_tree fs = Inl e
        \<longleftrightarrow> e = TypeError
            \<and> (\<exists>xs p c ys q c' zs. fs = xs @ (p, c) # ys @ (q, c') # zs
                  \<and> strict_prefix (segments p) (segments q)))
   \<and> (strict_prefix (segments p) (segments q)
        \<longrightarrow> build_structure_tree (xs @ (p, c) # ys @ (q, c') # zs) = Inl TypeError)
   \<and> (strict_prefix (segments p) (segments q)
        \<and> build_structure_tree (xs @ (q, c') # ys @ (p, c) # zs) = Inr t
        \<longrightarrow> lookup t (segments q) = None)
   \<and> scan_response nested_reply = [(''a'', ''x = 1''), (''a/b'', ''y = 2'')]
   \<and> parse_codebase_response nested_reply analysis = Inl TypeError"
proof -
  have "strict_prefix (segments p) (segments q)
        \<and> build_structure_tree (xs @ (q, c') # ys @ (p, c) # zs) = Inr t
        \<longrightarrow> lookup t (segments q) = None"
    using build_structure_tree_overwrites [of p q "xs @ (q, c') # ys" c zs t] by simp
  with build_structure_tree_iff [of fs] build_structure_tree_raises_iff [of fs e]
    build_structure_tree_prefix [of p q xs c ys c' zs]
    scan_nested_reply parse_nested_reply [of analysis]
  show ?thesis by blast
qed

theorem build_structure_tree_total_iff_prefix_free_witness:
  "prefix_free (segments ` set (keys project_files))
   \<and> (\<exists>t. build_structure_tree project_files = Inr t
          \<and> lookup t [''src'', ''app'', ''main.py''] = Some File
          \<and> lookup t [''src'', ''util.py''] = Some File
          \<and> lookup t [''README.md''] = Some File)
   \<and> strict_prefix (segments ''a'') (segments ''a/b'')
   \<and> build_structure_tree [(''a'', ''x = 1''), (''a/b'', ''y = 2'')] = Inl TypeError
   \<and> build_structure_tree [(''a/b'', ''y = 2''), (''a'', ''x = 1'')] = Inr (Dir [(''a'', File)])
   \<and> lookup (Dir [(''a'', File)]) (segments ''a/b'') = None"
proof -
  have free: "prefix_free (segments ` set (keys project_files))"
    unfolding prefix_free_def by code_simp
  have k: "keys project_files = [''src/app/main.py'', ''src/util.py'', ''README.md'']"
    by code_simp
  have s: "segments ''src/app/main.py'' = [''src'', ''app'', ''main.py'']"
    "segments ''src/util.py'' = [''src'', ''util.py'']"
    "segments ''README.md'' = [''README.md'']"
    by code_simp+
  have p: "strict_prefix (segments ''a'') (segments ''a/b'')"
    by code_simp
  have r: "build_structure_tree [(''a/b'', ''y = 2''), (''a'', ''x = 1'')] = Inr (Dir [(''a'', File)])"
    by code_simp
  note inst = build_structure_tree_total_iff_prefix_free
    [where fs = project_files and e = TypeError and p = "''a''" and q = "''a/b''"
       and xs = "[]" and c = "''x = 1''" and ys = "[]" and c' = "''y = 2''" and zs = "[]"
       and t = "Dir [(''a'', File)]"]
  from inst free have "\<exists>t. build_structure_tree project_files = Inr t
          \<and> (\<forall>file_path \<in> set (keys project_files). lookup t (segments file_path) = Some File)"
    by blast
  then obtain t where "build_structure_tree project_files = Inr t"
    "\<forall>file_path \<in> set (keys project_files). lookup t (segments file_path) = Some File"
    by blast
  with k s have t: "\<exists>t. build_structure_tree project_files = Inr t
          \<and> lookup t [''src'', ''app'', ''main.py''] = Some File
          \<and> lookup t [''src'', ''util.py''] = Some File
          \<and> lookup t [''README.md''] = Some File"
    by auto
  from inst p have e: "build_structure_tree [(''a'', ''x = 1''), (''a/b'', ''y = 2'')] = Inl TypeError"
    by simp
  from inst p r have l: "lookup (Dir [(''a'', File)]) (segments ''a/b'') = None"
    by simp
  from free t p e r l show ?thesis by blast
qed

text \<open>
  The claim fails at a mapping that holds the longer path first: for \<^verbatim>\<open>a/b\<close> and then \<^verbatim>\<open>a\<close>,
  as the scanner stores them for the reply \<^verbatim>\<open>reversed_reply\<close>, the walk never meets a leaf
  marker and nothing is raised; the assignment for \<^verbatim>\<open>a\<close> replaces the directory that held
  \<^verbatim>\<open>b\<close>, and the parser returns its result.
\<close>

theorem build_structure_tree_order_counterexample:
  "scan_response reversed_reply = [(''a/b'', ''y = 2''), (''a'', ''x = 1'')]
   \<and> strict_prefix (segments ''a'') (segments ''a/b'')
   \<and> build_structure_tree [(''a/b'', ''y = 2''), (''a'', ''x = 1'')] = Inr (Dir [(''a'', File)])
   \<and> (\<forall>analysis. \<exists>readme. parse_codebase_response reversed_reply analysis
         = Inr \<lparr>files = [(''a/b'', ''y = 2''), (''a'', ''x = 1''), (''README.md'', readme)],
                structure = Dir [(''a'', File), (''README.md'', File)]\<rparr>)"
proof -
  have "strict_prefix (segments ''a'') (segments ''a/b'')"
    by code_simp
  with scan_reversed_reply build_reversed [of "''y = 2''" "''x = 1''"] parse_reversed_reply
  show ?thesis by blast
qed

section \<open>Properties of the synthesizer and the adapter\<close>

lemma split_on_first: "c \<noteq> sep \<Longrightarrow> \<exists>w ws. split_on sep (c # cs) = (c # w) # ws"
  by (cases "split_on sep cs") (auto simp: split_on_not_Nil)

lemma keys_dict_set: "keys (dict_set k v d) = (if k \<in> set (keys d) then keys d else keys d @ [k])"
  by (induction d) (force simp: keys_def)+

lemma keys_fallback_files:
  "keys (fallback_files query analysis) =
     (if language analysis = ''python'' then [''main.py'', ''requirements.txt'', ''README.md'']
      else if language analysis = ''javascript'' then [''main.js'', ''package.json'', ''README.md'']
      else if language analysis = ''typescript'' then [''main.ts'', ''package.json'', ''README.md'']
      else [''main.'' @ language analysis, ''README.md''])"
  by (simp add: fallback_files_def Let_def keys_dict_set) (simp add: keys_def)

lemma prefix_free_fallback_files:
  "prefix_free (segments ` set (keys (fallback_files query analysis)))"
proof -
  have a: "prefix_free (segments ` set [''main.py'', ''requirements.txt'', ''README.md''])"
    unfolding prefix_free_def by code_simp
  have b: "prefix_free (segments ` set [''main.js'', ''package.json'', ''README.md''])"
    unfolding prefix_free_def by code_simp
  have c: "prefix_free (segments ` set [''main.ts'', ''package.json'', ''README.md''])"
    unfolding prefix_free_def by code_simp
  have r: "segments ''README.md'' = [''README.md'']"
    by code_simp
  define k where "k = ''main.'' @ language analysis"
  have "\<exists>w ws. segments k = (CHR ''m'' # w) # ws"
    unfolding k_def using split_on_first [of "CHR ''m''" "CHR ''/''" "''ain.'' @ language analysis"]
    by (simp add: segments_def)
  then obtain w ws where m: "segments k = (CHR ''m'' # w) # ws" by blast
  have d: "prefix_free (segments ` set [k, ''README.md''])"
    unfolding prefix_free_def by (auto simp: r m)
  from a b c d [unfolded k_def] show ?thesis by (simp add: keys_fallback_files)
qed

lemma fallback_succeeds:
  "\<exists>t. generate_enhanced_fallback query analysis existing_result
         = Inr \<lparr>files = fallback_files query analysis, structure = t\<rparr>"
proof -
  from build_structure_tree_iff [of "fallback_files query analysis"] prefix_free_fallback_files
  obtain t where "build_structure_tree (fallback_files query analysis) = Inr t" by blast
  then show ?thesis by (simp add: generate_enhanced_fallback_def)
qed

text \<open>
  C8: the fallback synthesizer is a function of the query and the analysis alone. For every
  query and analysis it returns a result (building its structure tree never raises), whatever
  \<^verbatim>\<open>existing_result\<close> it is given, with the same files: the entry file, the dependency
  manifest of the python and node targets, and \<^verbatim>\<open>README.md\<close>. No clock, network reply or
  field of the agent is among its arguments.
\<close>

theorem generate_enhanced_fallback_total:
  "(\<exists>t. generate_enhanced_fallback query analysis existing_result
          = Inr \<lparr>files = fallback_files query analysis, structure = t\<rparr>)
   \<and> generate_enhanced_fallback query analysis existing_result
       = generate_enhanced_fallback query analysis other_result
   \<and> keys (fallback_files query analysis) =
       (if language analysis = ''python'' then [''main.py'', ''requirements.txt'', ''README.md'']
        else if language analysis = ''javascript'' then [''main.js'', ''package.json'', ''README.md'']
        else if language analysis = ''typescript'' then [''main.ts'', ''package.json'', ''README.md'']
        else [''main.'' @ language analysis, ''README.md''])"
  using fallback_succeeds [of query analysis existing_result] keys_fallback_files [of query analysis]
  by (simp add: generate_enhanced_fallback_def)

theorem generate_enhanced_fallback_total_witness:
  "keys (fallback_files ''build a todo app'' (analyze_query ''build a todo app''))
     = [''main.py'', ''requirements.txt'', ''README.md'']
   \<and> (\<exists>t. generate_enhanced_fallback ''build a todo app'' (analyze_query ''build a todo app'')
            (None :: response option)
          = Inr \<lparr>files = fallback_files ''build a todo app'' (analyze_query ''build a todo app''),
                 structure = t\<rparr>)"
proof -
  have l: "language (analyze_query ''build a todo app'') = ''python''"
    by code_simp
  from l generate_enhanced_fallback_total
    [of "''build a todo app''" "analyze_query ''build a todo app''" "None :: response option"
      "None :: response option"]
  show ?thesis by simp
qed

text \<open>
  C6: an exception raised during a provider call never leaves the adapter. A
  code-generation request then returns the result of the fallback synthesizer, a prose
  request the text \<^verbatim>\<open>Error generating response: \<close> followed by the exception's message; a
  Gemini response with neither a text nor a candidate is such an exception. Whatever the
  call comes to, each of the three methods returns a value.
\<close>

theorem provider_errors_are_caught:
  "\<exists>fallback.
     generate_enhanced_fallback query analysis (None :: response option) = Inr fallback
     \<and> generate_with_openai (Raised str_e) query analysis True = Inr (Codebase fallback)
     \<and> generate_with_anthropic (Raised str_e) query analysis True = Inr (Codebase fallback)
     \<and> generate_with_gemini (Raised str_e) query analysis True = Inr (Codebase fallback)
     \<and> generate_with_gemini (Returned Neither) query analysis True = Inr (Codebase fallback)
     \<and> generate_with_openai (Raised str_e) query analysis False
         = Inr (Content (''Error generating response: '' @ str_e))
     \<and> generate_with_anthropic (Raised str_e) query analysis False
         = Inr (Content (''Error generating response: '' @ str_e))
     \<and> generate_with_gemini (Raised str_e) query analysis False
         = Inr (Content (''Error generating response: '' @ str_e))
     \<and> generate_with_gemini (Returned Neither) query analysis False
         = Inr (Content (''Error generating response: Unable to extract text from Gemini response''))
     \<and> (\<exists>r. generate_with_openai call query analysis codebase = Inr r)
     \<and> (\<exists>r. generate_with_anthropic call query analysis codebase = Inr r)
     \<and> (\<exists>r. generate_with_gemini gcall query analysis codebase = Inr r)"
proof -
  from fallback_succeeds [of query analysis "None :: response option"]
  obtain fallback where f:
    "generate_enhanced_fallback query analysis (None :: response option) = Inr fallback"
    by blast
  then have e: "on_exception query analysis True s = Inr (Codebase fallback)"
    "on_exception query analysis False s = Inr (Content (''Error generating response: '' @ s))" for s
    by (simp_all add: on_exception_def)
  then have x: "\<exists>r. on_exception query analysis codebase s = Inr r" for s
    by (cases codebase) simp_all
  then have y: "\<exists>r. on_reply content query analysis codebase = Inr r" for content
    by (auto simp: on_reply_def split: sum.splits)
  have "\<exists>r. generate_with_openai call query analysis codebase = Inr r"
    "\<exists>r. generate_with_anthropic call query analysis codebase = Inr r"
    using x y by (simp_all add: generate_with_openai_def generate_with_anthropic_def split: outcome.splits)
  moreover have "\<exists>r. generate_with_gemini gcall query analysis codebase = Inr r"
    using x y by (simp add: generate_with_gemini_def split: outcome.splits gemini_response.splits)
  ultimately show ?thesis using f e
    by (simp add: generate_with_openai_def generate_with_anthropic_def generate_with_gemini_def)
qed

theorem provider_errors_are_caught_witness:
  "generate_with_openai (Raised ''timeout'') ''explain trees'' (analyze_query ''explain trees'') False
     = Inr (Content ''Error generating response: timeout'')
   \<and> generate_with_gemini (Returned Neither) ''explain trees'' (analyze_query ''explain trees'') False
     = Inr (Content ''Error generating response: Unable to extract text from Gemini response'')"
  using provider_errors_are_caught
    [of "''explain trees''" "analyze_query ''explain trees''" "''timeout''"
      "Raised ''timeout''" False "Raised ''timeout''"]
  by auto

text \<open>
  C7: at initialization the three use-flags follow the priority OpenAI, Anthropic, Google
  over the credentials that are present (set and not empty), so no two flags are true;
  without any credential a code request is answered by the fallback synthesizer, whatever
  the network would have returned.
\<close>

theorem provider_selection:
  "use_openai (init cfg env) = truthy (py_or (OPENAI_API_KEY cfg) (env_OPENAI_API_KEY env))
   \<and> use_anthropic (init cfg env) =
       (truthy (py_or (ANTHROPIC_API_KEY cfg) (env_ANTHROPIC_API_KEY env))
        \<and> \<not> use_openai (init cfg env))
   \<and> use_gemini (init cfg env) =
       (truthy (py_or (GOOGLE_API_KEY cfg) (env_GOOGLE_API_KEY env))
        \<and> \<not> use_openai (init cfg env) \<and> \<not> use_anthropic (init cfg env))
   \<and> \<not> (use_openai (init cfg env) \<and> use_anthropic (init cfg env))
   \<and> \<not> (use_openai (init cfg env) \<and> use_gemini (init cfg env))
   \<and> \<not> (use_anthropic (init cfg env) \<and> use_gemini (init cfg env))
   \<and> (\<not> truthy (py_or (OPENAI_API_KEY cfg) (env_OPENAI_API_KEY env))
        \<and> \<not> truthy (py_or (ANTHROPIC_API_KEY cfg) (env_ANTHROPIC_API_KEY env))
        \<and> \<not> truthy (py_or (GOOGLE_API_KEY cfg) (env_GOOGLE_API_KEY env))
        \<longrightarrow> generate_codebase (init cfg env) net query analysis
              = generate_enhanced_fallback query analysis (None :: response option)
            \<and> generate_codebase (init cfg env) net query analysis
              = generate_codebase (init cfg env) other_net query analysis)"
  by (simp add: init_def Let_def generate_codebase_def)

theorem provider_selection_witness:
  "generate_codebase (init no_keys empty_environ) failing_network ''build an app''
     (analyze_query ''build an app'')
   = generate_enhanced_fallback ''build an app'' (analyze_query ''build an app'')
       (None :: response option)
   \<and> \<not> use_openai (init two_keys empty_environ)
   \<and> use_anthropic (init two_keys empty_environ)
   \<and> \<not> use_gemini (init two_keys empty_environ)"
proof -
  have n: "\<not> truthy (py_or (OPENAI_API_KEY no_keys) (env_OPENAI_API_KEY empty_environ))
      \<and> \<not> truthy (py_or (ANTHROPIC_API_KEY no_keys) (env_ANTHROPIC_API_KEY empty_environ))
      \<and> \<not> truthy (py_or (GOOGLE_API_KEY no_keys) (env_GOOGLE_API_KEY empty_environ))"
    by (simp add: no_keys_def empty_environ_def py_or_def)
  have t: "\<not> truthy (py_or (OPENAI_API_KEY two_keys) (env_OPENAI_API_KEY empty_environ))
      \<and> truthy (py_or (ANTHROPIC_API_KEY two_keys) (env_ANTHROPIC_API_KEY empty_environ))"
    by (simp add: two_keys_def empty_environ_def py_or_def)
  from n t
    provider_selection [of no_keys empty_environ failing_network "''build an app''"
      "analyze_query ''build an app''" failing_network]
    provider_selection [of two_keys empty_environ failing_network "''build an app''"
      "analyze_query ''build an app''" failing_network]
  show ?thesis by blast
qed

section \<open>Properties of the scanner\<close>

lemma rstrip_keeps:
  "\<not> isspace (last xs) \<Longrightarrow> xs \<noteq> [] \<Longrightarrow> \<exists>zs. rstrip (xs @ ys) = xs @ zs"
proof (induction ys rule: rev_induct)
  case Nil
  then have "dropWhile isspace (rev xs) = rev xs"
    by (cases "rev xs") (auto simp: last_rev hd_rev)
  then show ?case by (simp add: rstrip_def)
next
  case (snoc y ys)
  then obtain zs where z: "rstrip (xs @ ys) = xs @ zs" by blast
  show ?case
  proof (cases "isspace y")
    case True
    with z show ?thesis by (simp add: rstrip_def)
  next
    case False
    then show ?thesis by (simp add: rstrip_def)
  qed
qed

lemma startswith_append: "startswith (p @ s) p"
  by (induction p) auto

lemma startswith_iff: "startswith s p \<longleftrightarrow> (\<exists>t. s = p @ t)"
  by (induction s p rule: startswith.induct) auto

lemma strip_keeps_fence:
  assumes "startswith line ''```''"
  shows "startswith (strip line) ''```''"
proof -
  from assms obtain t where t: "line = ''```'' @ t" by (auto simp: startswith_iff)
  have "lstrip line = line" by (simp add: t lstrip_def isspace_def)
  moreover from rstrip_keeps [of "''```''" t] obtain zs where "rstrip (''```'' @ t) = ''```'' @ zs"
    by (auto simp: isspace_def)
  ultimately show ?thesis by (simp add: strip_def t startswith_iff)
qed

lemma dict_set_new: "k \<notin> set (keys d) \<Longrightarrow> dict_set k v d = d @ [(k, v)]"
  by (induction d) (auto simp: keys_def)

lemma map_of_keys: "map_of d k = None \<longleftrightarrow> k \<notin> set (keys d)"
  by (simp add: keys_def map_of_eq_None_iff)

lemma readme_key_blocks:
  "''README.md'' \<in> set (keys fs) \<Longrightarrow>
   list_ex (\<lambda>f. startswith f ''README'' \<or> endswith f ''.md'') (keys fs)"
  by (auto simp: list_ex_iff intro!: bexI [of _ "''README.md''"])

lemma readme_append_unreachable:
  "\<not> list_ex (\<lambda>f. startswith f ''README'' \<or> endswith f ''.md'') (keys fs) \<Longrightarrow>
   map_of fs ''README.md'' = None"
  using readme_key_blocks [of fs] by (auto simp: map_of_keys)

text \<open>
  C4, as the code has it: a line that is no marker and no fence and is not blank, met while
  no current file target is set, creates the target \<^verbatim>\<open>README.md\<close> holding that line when the
  scanner is outside every code block and no file name so far starts with \<^verbatim>\<open>README\<close> or ends
  with \<^verbatim>\<open>.md\<close>; inside a code block such a line changes nothing.
\<close>

theorem loose_prose_creates_readme:
  assumes "\<not> startswith (strip line) ''FILE:''"
    and "\<not> startswith (strip line) ''```''"
    and "strip line \<noteq> []"
    and "\<not> truthy (current_file st)"
  shows "(\<not> in_code_block st
          \<and> \<not> list_ex (\<lambda>f. startswith f ''README'' \<or> endswith f ''.md'') (keys (parsed_files st))
          \<longrightarrow> scan_line line st = st\<lparr>parsed_files := parsed_files st @ [(''README.md'', line)]\<rparr>)
       \<and> (in_code_block st \<longrightarrow> scan_line line st = st)"
proof -
  from assms(2) strip_keeps_fence [of line] have nf: "\<not> startswith line ''```''" by blast
  have "scan_line line st = st\<lparr>parsed_files := parsed_files st @ [(''README.md'', line)]\<rparr>"
    if "\<not> in_code_block st"
      "\<not> list_ex (\<lambda>f. startswith f ''README'' \<or> endswith f ''.md'') (keys (parsed_files st))"
  proof -
    from readme_append_unreachable [OF that(2)]
    have n: "map_of (parsed_files st) ''README.md'' = None" .
    then have "dict_set ''README.md'' line (parsed_files st) = parsed_files st @ [(''README.md'', line)]"
      by (simp add: dict_set_new map_of_keys)
    with assms nf that n show ?thesis by (simp add: scan_line_def)
  qed
  moreover have "scan_line line st = st" if "in_code_block st"
    using assms that by (simp add: scan_line_def)
  ultimately show ?thesis by blast
qed

lemma strip_decomposition:
  "\<exists>pre suf. s = pre @ strip s @ suf \<and> list_all isspace pre \<and> list_all isspace suf"
proof -
  let ?t = "lstrip s"
  have 1: "s = takeWhile isspace s @ ?t" by (simp add: lstrip_def)
  have "rev (strip s @ rev (takeWhile isspace (rev ?t))) = rev ?t"
    by (simp add: strip_def rstrip_def)
  then have 2: "?t = strip s @ rev (takeWhile isspace (rev ?t))"
    by (metis rev_is_rev_conv)
  have "list_all isspace (takeWhile isspace s)"
    "list_all isspace (rev (takeWhile isspace (rev ?t)))"
    by (auto simp: list_all_iff dest: set_takeWhileD)
  with 1 2 show ?thesis by (metis append.assoc)
qed

lemma strip_ends:
  assumes "strip s \<noteq> []"
  shows "\<not> isspace (hd (strip s)) \<and> \<not> isspace (last (strip s))"
proof -
  let ?t = "lstrip s"
  from assms have d: "dropWhile isspace (rev ?t) \<noteq> []" by (simp add: strip_def rstrip_def)
  then have "\<not> isspace (hd (dropWhile isspace (rev ?t)))" by (rule hd_dropWhile)
  with d have l: "\<not> isspace (last (strip s))" by (simp add: strip_def rstrip_def last_rev)
  from d have ne: "?t \<noteq> []" by auto
  then have h: "\<not> isspace (hd ?t)" unfolding lstrip_def by (rule hd_dropWhile)
  from ne obtain c cs where t: "?t = [c] @ cs" by (cases ?t) auto
  with h rstrip_keeps [of "[c]" cs] obtain zs where "rstrip ?t = [c] @ zs" by auto
  with t h have "\<not> isspace (hd (strip s))" by (simp add: strip_def)
  with l show ?thesis by blast
qed

lemma set_dict_set: "set (dict_set k v d) \<subseteq> insert (k, v) (set d)"
  by (induction d) (auto split: if_splits)

lemma scan_line_writes:
  assumes "(k, v) \<in> set (parsed_files (scan_line line st))"
  shows "(k, v) \<in> set (parsed_files st)
     \<or> (current_file st = Some k \<and> v = strip (join newline (current_content st)))
     \<or> (k = ''README.md'' \<and> v = line)"
proof -
  have c: "(k, v) \<in> set (commit fp content fs) \<Longrightarrow>
      (k, v) \<in> set fs \<or> (k = fp \<and> v = strip (join newline content))" for fp content fs
    using set_dict_set [of fp "strip (join newline content)" fs] by (auto simp: commit_def)
  have r: "(k, v) \<in> set (dict_set ''README.md'' line fs) \<Longrightarrow>
      (k, v) \<in> set fs \<or> (k = ''README.md'' \<and> v = line)" for fs
    using set_dict_set [of "''README.md''" line fs] by auto
  from assms show ?thesis
    by (auto simp: scan_line_def Let_def readme_append_unreachable
          split: if_splits option.splits dest!: c r)
qed

theorem loose_prose_creates_readme_witness:
  "scan_line ''first line'' initial_state
     = initial_state\<lparr>parsed_files := [(''README.md'', ''first line'')]\<rparr>
   \<and> scan_line ''loose prose'' untagged_block_state = untagged_block_state"
proof -
  have h: "\<not> startswith (strip ''first line'') ''FILE:''"
    "\<not> startswith (strip ''first line'') ''```''"
    "strip ''first line'' \<noteq> []"
    "\<not> startswith (strip ''loose prose'') ''FILE:''"
    "\<not> startswith (strip ''loose prose'') ''```''"
    "strip ''loose prose'' \<noteq> []"
    by code_simp+
  have s: "\<not> truthy (current_file initial_state)" "\<not> in_code_block initial_state"
    "parsed_files initial_state = []"
    "\<not> truthy (current_file untagged_block_state)" "in_code_block untagged_block_state"
    by (simp_all add: initial_state_def untagged_block_state_def)
  from loose_prose_creates_readme [OF h(1-3) s(1)] loose_prose_creates_readme [OF h(4-6) s(4)] s
  show ?thesis by (simp add: keys_def)
qed

text \<open>
  The claim fails inside a fenced block that has no language tag: no target is opened, and
  the lines of the block are dropped, not appended to \<^verbatim>\<open>README.md\<close>.
\<close>

theorem loose_prose_counterexample:
  "scan_lines [''```''] initial_state = untagged_block_state
   \<and> current_file untagged_block_state = None
   \<and> scan_line ''loose prose'' untagged_block_state = untagged_block_state
   \<and> scan_response untagged_block = []"
  by code_simp

text \<open>
  C5 at two fenced python blocks: the second inferred target is \<^verbatim>\<open>main.py\<close> again, not
  \<^verbatim>\<open>file.py\<close>, and its content replaces that of the first block.
\<close>

theorem second_inferred_target_is_main:
  "current_file (scan_lines [''```python'', ''a = 1'', ''```'', ''```python''] initial_state)
     = Some ''main.py''
   \<and> scan_response two_python_blocks = [(''main.py'', ''b = 2'')]"
  by code_simp

text \<open>
  C3, as the code has it: a commit stores the accumulated lines, joined by line feeds, with
  all leading and trailing whitespace removed (\<^verbatim>\<open>strip()\<close>): the text between the first and
  the last character that is not whitespace, unchanged. One step of the scanner writes
  nothing else but such a commit of the current target, or a loose line under
  \<^verbatim>\<open>README.md\<close>; the step after the loop writes nothing else but such a commit.
\<close>

theorem commit_stores_stripped_text:
  "map_of (commit file_path content fs) file_path = Some (strip (join newline content))
   \<and> (\<exists>pre suf. join newline content = pre @ strip (join newline content) @ suf
         \<and> list_all isspace pre \<and> list_all isspace suf)
   \<and> (strip (join newline content) \<noteq> []
       \<longrightarrow> \<not> isspace (hd (strip (join newline content)))
           \<and> \<not> isspace (last (strip (join newline content))))
   \<and> ((k, v) \<in> set (parsed_files (scan_line line st))
       \<longrightarrow> (k, v) \<in> set (parsed_files st)
           \<or> (current_file st = Some k \<and> v = strip (join newline (current_content st)))
           \<or> (k = ''README.md'' \<and> v = line))
   \<and> ((k, v) \<in> set (save_last_file st)
       \<longrightarrow> (k, v) \<in> set (parsed_files st)
           \<or> (current_file st = Some k \<and> v = strip (join newline (current_content st))))"
proof -
  have 1: "map_of (commit file_path content fs) file_path = Some (strip (join newline content))"
    by (simp add: commit_def map_of_dict_set)
  have 5: "(k, v) \<in> set (parsed_files st)
      \<or> (current_file st = Some k \<and> v = strip (join newline (current_content st)))"
    if "(k, v) \<in> set (save_last_file st)"
    using that set_dict_set [of _ "strip (join newline (current_content st))" "parsed_files st"]
    by (auto simp: save_last_file_def commit_def split: option.splits if_splits)
  from 1 5 strip_decomposition [of "join newline content"] strip_ends [of "join newline content"]
    scan_line_writes [of k v line st]
  show ?thesis by blast
qed

theorem commit_stores_stripped_text_witness:
  "map_of (commit ''a.py'' [''    x = 1'', ''y = 2  ''] []) ''a.py'' = Some ''x = 1\<newline>y = 2''
   \<and> \<not> isspace (hd ''x = 1\<newline>y = 2'') \<and> \<not> isspace (last ''x = 1\<newline>y = 2'')
   \<and> (''a.py'', ''x = 1\<newline>y = 2'') \<in> set (parsed_files (scan_line ''```'' open_block_state))
   \<and> current_file open_block_state = Some ''a.py''
   \<and> strip (join newline (current_content open_block_state)) = ''x = 1\<newline>y = 2''"
proof -
  have s: "strip (join newline [''    x = 1'', ''y = 2  '']) = ''x = 1\<newline>y = 2''"
    by code_simp
  have m: "(''a.py'', ''x = 1\<newline>y = 2'') \<in> set (parsed_files (scan_line ''```'' open_block_state))"
    by code_simp
  have o: "current_file open_block_state = Some ''a.py''"
    "current_content open_block_state = [''    x = 1'', ''y = 2  '']"
    "parsed_files open_block_state = []"
    by (simp_all add: open_block_state_def)
  from commit_stores_stripped_text
    [of "''a.py''" "[''    x = 1'', ''y = 2  '']" "[]" "''a.py''" "''x = 1\<newline>y = 2''" "''```''"
      open_block_state]
  have "map_of (commit ''a.py'' [''    x = 1'', ''y = 2  ''] []) ''a.py''
      = Some (strip (join newline [''    x = 1'', ''y = 2  '']))"
    and "strip (join newline [''    x = 1'', ''y = 2  '']) \<noteq> []
      \<longrightarrow> \<not> isspace (hd (strip (join newline [''    x = 1'', ''y = 2  ''])))
          \<and> \<not> isspace (last (strip (join newline [''    x = 1'', ''y = 2  ''])))"
    by blast+
  with s m o show ?thesis by simp
qed

text \<open>
  The claim fails at a file whose first line is indented and whose last line ends in blanks:
  the claim keeps both, the commit removes them.
\<close>

theorem commit_counterexample:
  "scan_response indented_reply = [(''a.py'', ''x = 1\<newline>y = 2'')]
   \<and> claimed_commit_content [''    x = 1'', ''y = 2  ''] = ''    x = 1\<newline>y = 2  ''
   \<and> map_of (scan_response indented_reply) ''a.py''
       \<noteq> Some (claimed_commit_content [''    x = 1'', ''y = 2  ''])"
  by code_simp

section \<open>File names of a result\<close>




























end
